theory Spec2Isabelle
  imports Main
begin

section \<open>The Spark pod initializer: data model\<close>

text \<open>
  A shallow embedding of \<^verbatim>\<open>pkg/initializer/initializer.go\<close>. Only the fields of the
  Kubernetes objects that the source reads or writes are kept. Go pointers to pods are
  addresses into an explicit heap, so that mutation through a pointer and the copy made
  before it are visible in the model.
\<close>

subsection \<open>Constants of the package\<close>

definition initializerName :: string where
  "initializerName = ''pod-initializer.spark-operator.k8s.io''"

definition initializerConfigName :: string where
  "initializerConfigName = ''spark-pod-initializer-config''"

definition sparkRoleLabel :: string where
  "sparkRoleLabel = ''spark-role''"

definition sparkDriverRole :: string where
  "sparkDriverRole = ''driver''"

definition sparkExecutorRole :: string where
  "sparkExecutorRole = ''executor''"

subsection \<open>Kubernetes objects\<close>

text \<open>\<^verbatim>\<open>metav1.Initializer\<close>: one entry of a pod's pending list.\<close>

record pendingInitializer =
  Pending_Name :: string

text \<open>
  \<^verbatim>\<open>metav1.Initializers\<close>: the pending list and the optional result status. The pod
  holds a pointer to it; \<open>None\<close> is the nil pointer.
\<close>

record initializers =
  Pending :: "pendingInitializer list"
  Result :: "string option"

record ownerReference =
  APIVersion :: string
  Kind :: string
  Owner_Name :: string
  UID :: string
  Controller :: "bool option"
  BlockOwnerDeletion :: "bool option"

record volumeMount =
  Mount_Name :: string
  MountPath :: string

record container =
  Container_Name :: string
  VolumeMounts :: "volumeMount list"
  Env :: "(string \<times> string) list"

record volume =
  Volume_Name :: string
  Volume_Source :: string

text \<open>\<^verbatim>\<open>apiv1.Pod\<close>, with \<^verbatim>\<open>Spec.Containers\<close> and \<^verbatim>\<open>Spec.Volumes\<close> flattened.\<close>

record pod =
  Namespace :: string
  Name :: string
  Labels :: "string \<rightharpoonup> string"
  Annotations :: "string \<rightharpoonup> string"
  OwnerReferences :: "ownerReference list"
  Initializers :: "initializers option"
  Containers :: "container list"
  Volumes :: "volume list"

text \<open>
  \<^verbatim>\<open>v1alpha1.Rule\<close>, \<^verbatim>\<open>v1alpha1.Initializer\<close> and
  \<^verbatim>\<open>v1alpha1.InitializerConfiguration\<close>: the registration record.
\<close>

record rule =
  APIGroups :: "string list"
  APIVersions :: "string list"
  Resources :: "string list"

record registeredInitializer =
  Initializer_Name :: string
  Rules :: "rule list"

record initializerConfiguration =
  Config_Name :: string
  Config_Initializers :: "registeredInitializer list"

subsection \<open>Errors, panics and traces\<close>

text \<open>
  An error of a client call. \<open>NotFound\<close> stands for the errors on which
  \<^verbatim>\<open>errors.IsNotFound\<close> answers true.
\<close>

datatype api_error = NotFound | OtherApiError string

definition IsNotFound :: "api_error \<Rightarrow> bool" where
  "IsNotFound err = (err = NotFound)"

text \<open>
  The values of Go's \<^verbatim>\<open>error\<close> the package can return: an error of a client call
  passed on as it is, an error of a library call (deep copy, JSON, patch computation),
  and one constructor for each \<^verbatim>\<open>fmt.Errorf\<close> of the source.
\<close>

datatype error =
    Api api_error
  | Lib string
  | MalformedQueueKey string
  | NoContainerFound string
  | FailedToCreate api_error
  | FailedToGet api_error
  | FailedToUpdate api_error
  | FailedToSync string error

text \<open>A call either returns or panics; a deferred call still runs on a panic.\<close>

datatype 'a outcome = Returned 'a | Panicked string

text \<open>The methods of \<^verbatim>\<open>workqueue.RateLimitingInterface\<close> invoked on \<^verbatim>\<open>ic.queue\<close>.\<close>

datatype queue_op =
    Add string
  | AddRateLimited string
  | Get
  | Done string
  | Forget string

text \<open>Log lines other than informational ones, with the format string of the source.\<close>

datatype logline =
    Errorf string
  | Warning string
  | HandleError error

text \<open>The requests sent through \<^verbatim>\<open>kubeClient\<close>, with their arguments.\<close>

datatype api_call =
    PodsGet string string
  | PodsUpdate string pod
  | PodsPatch string string string
  | ConfigGet string
  | ConfigCreate initializerConfiguration
  | ConfigUpdate initializerConfiguration

subsection \<open>The client and the libraries\<close>

text \<open>
  \<^verbatim>\<open>clientset.Interface\<close> is a parameter: each operation takes the state \<open>'w\<close> of the
  API server and returns its answer and the server's new state. Go's pair of a result
  and an error is a sum, \<open>Inl\<close> the error.
\<close>

record 'w clientset =
  Get_Pod :: "string \<Rightarrow> string \<Rightarrow> 'w \<Rightarrow> (api_error + pod) \<times> 'w"
  Update_Pod :: "string \<Rightarrow> pod \<Rightarrow> 'w \<Rightarrow> (api_error + pod) \<times> 'w"
  Patch_Pod :: "string \<Rightarrow> string \<Rightarrow> string \<Rightarrow> 'w \<Rightarrow> (api_error + pod) \<times> 'w"
  Get_Config :: "string \<Rightarrow> 'w \<Rightarrow> (api_error + initializerConfiguration) \<times> 'w"
  Create_Config ::
    "initializerConfiguration \<Rightarrow> 'w \<Rightarrow> (api_error + initializerConfiguration) \<times> 'w"
  Update_Config ::
    "initializerConfiguration \<Rightarrow> 'w \<Rightarrow> (api_error + initializerConfiguration) \<times> 'w"

text \<open>
  The library functions and the functions and constants of \<^verbatim>\<open>pkg/config\<close> and
  \<^verbatim>\<open>pkg/secret\<close> that the source calls; their bodies are not part of the file, so
  they are parameters. \<open>DeepCopy_error\<close> says whether cloning an object fails.
  \<open>Unmarshal\<close> gives the receiver after the call on a zero-valued owner reference,
  and the error. A function that Go applies to a pod pointer returns the pod after the
  call; one applied to a container pointer returns the container after the call. The
  two \<open>Find\<close> functions return Go maps, here the pairs in the order the \<^verbatim>\<open>range\<close>
  loop visits them.
\<close>

record ext =
  DeepCopy_error :: "pod \<Rightarrow> string option"
  Marshal :: "pod \<Rightarrow> string + string"
  CreateTwoWayMergePatch :: "string \<Rightarrow> string \<Rightarrow> string + string"
  Unmarshal :: "string \<Rightarrow> ownerReference \<times> string option"
  OwnerReferenceAnnotation :: string
  SparkConfigMapAnnotation :: string
  HadoopConfigMapAnnotation :: string
  DefaultSparkConfDir :: string
  DefaultHadoopConfDir :: string
  AddSparkConfigMapVolumeToPod :: "string \<Rightarrow> pod \<Rightarrow> string \<times> pod"
  MountSparkConfigMapToContainer :: "string \<Rightarrow> string \<Rightarrow> container \<Rightarrow> container"
  AddHadoopConfigMapVolumeToPod :: "string \<Rightarrow> pod \<Rightarrow> string \<times> pod"
  MountHadoopConfigMapToContainer :: "string \<Rightarrow> string \<Rightarrow> container \<Rightarrow> container"
  FindGeneralConfigMaps :: "(string \<rightharpoonup> string) \<Rightarrow> (string \<times> string) list"
  AddConfigMapVolumeToPod :: "string \<Rightarrow> string \<Rightarrow> pod \<Rightarrow> pod"
  MountConfigMapToContainer :: "string \<Rightarrow> string \<Rightarrow> container \<Rightarrow> container"
  FindGCPServiceAccountSecret :: "(string \<rightharpoonup> string) \<Rightarrow> string \<times> string \<times> bool"
  ServiceAccountSecretVolumeName :: string
  AddSecretVolumeToPod :: "string \<Rightarrow> string \<Rightarrow> pod \<Rightarrow> pod"
  MountServiceAccountSecretToContainer :: "string \<Rightarrow> container \<Rightarrow> container"
  FindGeneralSecrets :: "(string \<rightharpoonup> string) \<Rightarrow> (string \<times> string) list"
  MountSecretToContainer :: "string \<Rightarrow> string \<Rightarrow> container \<Rightarrow> container"

subsection \<open>The state\<close>

text \<open>
  What a call of the package can read or change: the API server behind the client, the
  requests sent to it, the operations invoked on the work queue, the log, and the heap
  of pod objects with its next free address.
\<close>

type_synonym addr = nat

record 'w sys =
  kube :: 'w
  calls :: "api_call list"
  queue :: "queue_op list"
  glog :: "logline list"
  heap :: "addr \<Rightarrow> pod"
  brk :: addr

definition new :: "pod \<Rightarrow> 'w sys \<Rightarrow> addr \<times> 'w sys" where
  "new p s = (brk s, s\<lparr>heap := (heap s)(brk s := p), brk := Suc (brk s)\<rparr>)"

definition modify :: "addr \<Rightarrow> (pod \<Rightarrow> pod) \<Rightarrow> 'w sys \<Rightarrow> 'w sys" where
  "modify a f s = s\<lparr>heap := (heap s)(a := f (heap s a))\<rparr>"

definition enqueue :: "queue_op \<Rightarrow> 'w sys \<Rightarrow> 'w sys" where
  "enqueue q s = s\<lparr>queue := queue s @ [q]\<rparr>"

definition logged :: "logline \<Rightarrow> 'w sys \<Rightarrow> 'w sys" where
  "logged l s = s\<lparr>glog := glog s @ [l]\<rparr>"

text \<open>A client call: the request is recorded, the server answers and moves on.\<close>

definition request ::
  "api_call \<Rightarrow> ('w \<Rightarrow> 'r \<times> 'w) \<Rightarrow> 'w sys \<Rightarrow> 'r \<times> 'w sys" where
  "request call f s =
     (case f (kube s) of (r, w) \<Rightarrow> (r, s\<lparr>kube := w, calls := calls s @ [call]\<rparr>))"

text \<open>
  \<^verbatim>\<open>runtime.NewScheme().DeepCopy(pod)\<close>: an error, or the address of a new object equal
  to the one copied.
\<close>

definition DeepCopy :: "ext \<Rightarrow> addr \<Rightarrow> 'w sys \<Rightarrow> (error + addr) \<times> 'w sys" where
  "DeepCopy ext src s =
     (case DeepCopy_error ext (heap s src) of
        Some msg \<Rightarrow> (Inl (Lib msg), s)
      | None \<Rightarrow> (case new (heap s src) s of (a, s1) \<Rightarrow> (Inr a, s1)))"

section \<open>Marker removal\<close>

text \<open>
  The loop of \<^verbatim>\<open>removeSelf\<close>: every pending entry whose name differs from
  \<open>initializerName\<close> is appended to \<open>updated\<close>, in order.
\<close>

primrec removeSelf_loop ::
  "pendingInitializer list \<Rightarrow> pendingInitializer list \<Rightarrow> pendingInitializer list" where
  "removeSelf_loop [] updated = updated"
| "removeSelf_loop (pending # rest) updated =
     removeSelf_loop rest
       (if Pending_Name pending \<noteq> initializerName then updated @ [pending] else updated)"

text \<open>
  \<^verbatim>\<open>removeSelf(pod *apiv1.Pod)\<close> mutates the pod it points to and nothing else; the
  model returns the pod after the call. The informational log line is left out.
\<close>

definition removeSelf :: "pod \<Rightarrow> pod" where
  "removeSelf pod =
     (case Initializers pod of
        None \<Rightarrow> pod
      | Some ini \<Rightarrow>
          (let updated = removeSelf_loop (Pending ini) [] in
           if length updated > 0 \<and> length updated = length (Pending ini) then pod
           else if length updated = 0 then pod\<lparr>Initializers := None\<rparr>
           else pod\<lparr>Initializers := Some (ini\<lparr>Pending := updated\<rparr>)\<rparr>))"

text \<open>
  \<^verbatim>\<open>isInitializerPresent\<close>: the search loop returns at the first pending entry that bears
  this initializer's name.
\<close>

primrec isInitializerPresent_loop :: "pendingInitializer list \<Rightarrow> bool" where
  "isInitializerPresent_loop [] = False"
| "isInitializerPresent_loop (pending # rest) =
     (if Pending_Name pending = initializerName then True else isInitializerPresent_loop rest)"

definition isInitializerPresent :: "pod \<Rightarrow> bool" where
  "isInitializerPresent pod =
     (case Initializers pod of
        None \<Rightarrow> False
      | Some ini \<Rightarrow> isInitializerPresent_loop (Pending ini))"

section \<open>Classification and queue keys\<close>

definition isSparkPod :: "pod \<Rightarrow> bool" where
  "isSparkPod pod =
     (case Labels pod sparkRoleLabel of
        None \<Rightarrow> False
      | Some sparkRole \<Rightarrow> sparkRole = sparkDriverRole \<or> sparkRole = sparkExecutorRole)"

definition getQueueKey :: "pod \<Rightarrow> string" where
  "getQueueKey pod = Namespace pod @ ''/'' @ Name pod"

text \<open>
  \<^verbatim>\<open>strings.Split(s, sep)\<close> for a separator of one character: the pieces between the
  occurrences of the separator, one more than there are occurrences.
\<close>

primrec Split :: "string \<Rightarrow> char \<Rightarrow> string list" where
  "Split [] sep = [[]]"
| "Split (c # cs) sep =
     (if c = sep then [] # Split cs sep
      else (case Split cs sep of [] \<Rightarrow> [[c]] | part # parts \<Rightarrow> (c # part) # parts))"

definition getNamespaceName :: "string \<Rightarrow> string \<times> string \<times> error option" where
  "getNamespaceName key =
     (let parts = Split key (CHR ''/'') in
      if length parts \<noteq> 2 then ('''', '''', Some (MalformedQueueKey key))
      else (parts ! 0, parts ! 1, None))"

section \<open>The mutation steps\<close>

text \<open>
  \<^verbatim>\<open>addOwnerReference\<close>: the pod after the call, and the error lines logged. The append
  stands after the \<^verbatim>\<open>if err != nil\<close> block, which only logs.
\<close>

definition addOwnerReference :: "ext \<Rightarrow> pod \<Rightarrow> pod \<times> logline list" where
  "addOwnerReference ext pod =
     (case Annotations pod (OwnerReferenceAnnotation ext) of
        None \<Rightarrow> (pod, [])
      | Some ownerReferenceStr \<Rightarrow>
          (case Unmarshal ext ownerReferenceStr of
             (ownerReference, err) \<Rightarrow>
               (pod\<lparr>OwnerReferences := OwnerReferences pod @ [ownerReference]\<rparr>,
                if err \<noteq> None then [Errorf ''failed to add OwnerReference to Pod %s: %v'']
                else [])))"

text \<open>
  The container pointer handed to the mount functions is
  \<^verbatim>\<open>&modifiedPod.Spec.Containers[0]\<close>, a pointer into the pod itself: it is the index
  of the container in the pod's list, and a write through it updates that element. The
  volume functions are taken to leave the container list in place.
\<close>

definition onContainer :: "nat \<Rightarrow> (container \<Rightarrow> container) \<Rightarrow> pod \<Rightarrow> pod" where
  "onContainer i f pod = pod\<lparr>Containers := (Containers pod)[i := f (Containers pod ! i)]\<rparr>"

fun handleConfigMaps_loop :: "ext \<Rightarrow> (string \<times> string) list \<Rightarrow> nat \<Rightarrow> pod \<Rightarrow> pod" where
  "handleConfigMaps_loop ext [] container pod = pod"
| "handleConfigMaps_loop ext ((name, mountPath) # configMaps) container pod =
     (let volumeName = name @ ''-volume'';
          pod1 = AddConfigMapVolumeToPod ext volumeName name pod;
          pod2 = onContainer container (MountConfigMapToContainer ext volumeName mountPath) pod1
      in handleConfigMaps_loop ext configMaps container pod2)"

definition handleConfigMaps :: "ext \<Rightarrow> nat \<Rightarrow> pod \<Rightarrow> pod" where
  "handleConfigMaps ext container pod =
     (let pod1 =
        (case Annotations pod (SparkConfigMapAnnotation ext) of
           None \<Rightarrow> pod
         | Some sparkConfigMapName \<Rightarrow>
             (case AddSparkConfigMapVolumeToPod ext sparkConfigMapName pod of
                (volumeName, p) \<Rightarrow>
                  onContainer container
                    (MountSparkConfigMapToContainer ext volumeName (DefaultSparkConfDir ext)) p));
          pod2 =
        (case Annotations pod1 (HadoopConfigMapAnnotation ext) of
           None \<Rightarrow> pod1
         | Some hadoopConfigMapName \<Rightarrow>
             (case AddHadoopConfigMapVolumeToPod ext hadoopConfigMapName pod1 of
                (volumeName, p) \<Rightarrow>
                  onContainer container
                    (MountHadoopConfigMapToContainer ext volumeName (DefaultHadoopConfDir ext)) p));
          configMaps = FindGeneralConfigMaps ext (Annotations pod2)
      in handleConfigMaps_loop ext configMaps container pod2)"

fun handleSecrets_loop :: "ext \<Rightarrow> (string \<times> string) list \<Rightarrow> nat \<Rightarrow> pod \<Rightarrow> pod" where
  "handleSecrets_loop ext [] container pod = pod"
| "handleSecrets_loop ext ((name, mountPath) # secrets) container pod =
     (let volumeName = name @ ''-volume'';
          pod1 = AddSecretVolumeToPod ext volumeName name pod;
          pod2 = onContainer container (MountSecretToContainer ext volumeName mountPath) pod1
      in handleSecrets_loop ext secrets container pod2)"

definition handleSecrets :: "ext \<Rightarrow> nat \<Rightarrow> pod \<Rightarrow> pod" where
  "handleSecrets ext container pod =
     (let pod1 =
        (case FindGCPServiceAccountSecret ext (Annotations pod) of
           (secretName, mountPath, found) \<Rightarrow>
             if found then
               onContainer container (MountServiceAccountSecretToContainer ext mountPath)
                 (AddSecretVolumeToPod ext (ServiceAccountSecretVolumeName ext) secretName pod)
             else pod);
          secrets = FindGeneralSecrets ext (Annotations pod1)
      in handleSecrets_loop ext secrets container pod1)"

section \<open>Submitting the result\<close>

definition updatePod :: "'w clientset \<Rightarrow> addr \<Rightarrow> 'w sys \<Rightarrow> error option \<times> 'w sys" where
  "updatePod clientset newPod s =
     (case request (PodsUpdate (Namespace (heap s newPod)) (heap s newPod))
             (Update_Pod clientset (Namespace (heap s newPod)) (heap s newPod)) s of
        (Inl err, s1) \<Rightarrow> (Some (Api err), s1)
      | (Inr _, s1) \<Rightarrow> (None, s1))"

definition patchPod ::
  "ext \<Rightarrow> 'w clientset \<Rightarrow> addr \<Rightarrow> addr \<Rightarrow> 'w sys \<Rightarrow> (error + pod) \<times> 'w sys" where
  "patchPod ext clientset originalPod modifiedPod s =
     (case Marshal ext (heap s originalPod) of
        Inl err \<Rightarrow> (Inl (Lib err), s)
      | Inr originalData \<Rightarrow>
     (case Marshal ext (heap s modifiedPod) of
        Inl err \<Rightarrow> (Inl (Lib err), s)
      | Inr modifiedData \<Rightarrow>
     (case CreateTwoWayMergePatch ext originalData modifiedData of
        Inl err \<Rightarrow> (Inl (Lib err), s)
      | Inr patch \<Rightarrow>
     (case request
             (PodsPatch (Namespace (heap s originalPod)) (Name (heap s originalPod)) patch)
             (Patch_Pod clientset (Namespace (heap s originalPod)) (Name (heap s originalPod))
                patch) s of
        (Inl err, s1) \<Rightarrow> (Inl (Api err), s1)
      | (Inr p, s1) \<Rightarrow> (Inr p, s1)))))"

section \<open>The two reconciliation paths\<close>

definition handleNonSparkPod ::
  "ext \<Rightarrow> 'w clientset \<Rightarrow> addr \<Rightarrow> 'w sys \<Rightarrow> error option \<times> 'w sys" where
  "handleNonSparkPod ext clientset pod s =
     (case DeepCopy ext pod s of
        (Inl err, s1) \<Rightarrow> (Some err, s1)
      | (Inr podCopy, s1) \<Rightarrow> updatePod clientset podCopy (modify podCopy removeSelf s1))"

text \<open>
  \<^verbatim>\<open>syncSparkPod\<close>. The error of \<^verbatim>\<open>getNamespaceName\<close> is bound to \<open>err\<close> and the next
  line assigns \<open>err\<close> again, so it is never read. The pod the client returns is a new
  object on the heap. Taking the address of the first container panics when the index
  is out of range.
\<close>

definition syncSparkPod ::
  "ext \<Rightarrow> 'w clientset \<Rightarrow> string \<Rightarrow> 'w sys \<Rightarrow> (error + pod option) outcome \<times> 'w sys" where
  "syncSparkPod ext kubeClient key s =
     (case getNamespaceName key of
        (namespace, name, err) \<Rightarrow>
     (case request (PodsGet namespace name) (Get_Pod kubeClient namespace name) s of
        (Inl err, s1) \<Rightarrow>
          if IsNotFound err then (Returned (Inr None), s1)
          else (Returned (Inl (Api err)), s1)
      | (Inr fetched, s1) \<Rightarrow>
     (case new fetched s1 of
        (pod, s2) \<Rightarrow>
     (case DeepCopy ext pod s2 of
        (Inl err, s3) \<Rightarrow> (Returned (Inl err), s3)
      | (Inr modifiedPod, s3) \<Rightarrow>
          if length (Containers (heap s3 modifiedPod)) \<le> 0 then
            (Returned (Inl (NoContainerFound (Name (heap s3 modifiedPod)))), s3)
          else if \<not> 0 < length (Containers (heap s3 modifiedPod)) then
            (Panicked ''index out of range'', s3)
          else
            (let appContainer = 0;
                 s4 = (case addOwnerReference ext (heap s3 modifiedPod) of
                         (p, lines) \<Rightarrow>
                           (modify modifiedPod (\<lambda>_. p) s3)\<lparr>glog := glog s3 @ lines\<rparr>);
                 s5 = modify modifiedPod (handleConfigMaps ext appContainer) s4;
                 s6 = modify modifiedPod (handleSecrets ext appContainer) s5;
                 s7 = modify modifiedPod removeSelf s6
             in (case patchPod ext kubeClient pod modifiedPod s7 of
                   (Inl err, s8) \<Rightarrow> (Returned (Inl err), s8)
                 | (Inr p, s8) \<Rightarrow> (Returned (Inr (Some p)), s8)))))))"

section \<open>The event handlers\<close>

text \<open>
  The payload of a watch event: a pointer to a pod, or an object of another type (such
  as the tombstone the informer delivers for a deletion it missed). The type assertion
  \<^verbatim>\<open>pod, ok := obj.(*apiv1.Pod)\<close> gives the nil pointer and false for the latter.
\<close>

datatype obj = PodObject addr | OtherObject string

definition assertPod :: "obj \<Rightarrow> addr option \<times> bool" where
  "assertPod obj = (case obj of PodObject a \<Rightarrow> (Some a, True) | OtherObject _ \<Rightarrow> (None, False))"

text \<open>Reading a field through the nil pointer panics.\<close>

definition onPodAdded :: "ext \<Rightarrow> 'w clientset \<Rightarrow> obj \<Rightarrow> 'w sys \<Rightarrow> unit outcome \<times> 'w sys" where
  "onPodAdded ext kubeClient obj s =
     (case assertPod obj of
        (pod, ok) \<Rightarrow>
          if \<not> ok then (Returned (), logged (Errorf ''received non-pod object: %v'') s)
          else
            (case pod of
               None \<Rightarrow> (Panicked ''nil pointer dereference'', s)
             | Some a \<Rightarrow>
                 if isInitializerPresent (heap s a) then
                   if isSparkPod (heap s a) then
                     (Returned (), enqueue (AddRateLimited (getQueueKey (heap s a))) s)
                   else (Returned (), snd (handleNonSparkPod ext kubeClient a s))
                 else (Returned (), s)))"

definition onPodDeleted :: "obj \<Rightarrow> 'w sys \<Rightarrow> unit outcome \<times> 'w sys" where
  "onPodDeleted obj s =
     (case assertPod obj of
        (pod, ok) \<Rightarrow>
          (let s1 = (if \<not> ok then logged (Errorf ''received non-pod object: %v'') s else s) in
           case pod of
             None \<Rightarrow> (Panicked ''nil pointer dereference'', s1)
           | Some a \<Rightarrow>
               if isSparkPod (heap s1 a) then
                 (let key = getQueueKey (heap s1 a) in
                  (Returned (), enqueue (Done key) (enqueue (Forget key) s1)))
               else (Returned (), s1)))"

section \<open>The worker\<close>

text \<open>
  \<^verbatim>\<open>processNextItem\<close>, given what \<^verbatim>\<open>ic.queue.Get()\<close> answered. The handler is the
  field \<^verbatim>\<open>syncHandler\<close>, which \<^verbatim>\<open>New\<close> sets to \<^verbatim>\<open>syncSparkPod\<close>. The deferred
  \<^verbatim>\<open>Done\<close> runs last, also when the handler panics.
\<close>

definition processNextItem ::
  "(string \<Rightarrow> 'w sys \<Rightarrow> (error + pod option) outcome \<times> 'w sys) \<Rightarrow> string \<times> bool \<Rightarrow> 'w sys
     \<Rightarrow> bool outcome \<times> 'w sys" where
  "processNextItem syncHandler got s =
     (case got of
        (key, quit) \<Rightarrow>
          (let s0 = enqueue Get s in
           if quit then (Returned False, s0)
           else
             (case syncHandler key s0 of
                (Panicked msg, s1) \<Rightarrow> (Panicked msg, enqueue (Done key) s1)
              | (Returned (Inr _), s1) \<Rightarrow>
                  (Returned True, enqueue (Done key) (enqueue (Forget key) s1))
              | (Returned (Inl err), s1) \<Rightarrow>
                  (Returned True,
                   enqueue (Done key)
                     (enqueue (AddRateLimited key)
                        (logged (HandleError (FailedToSync key err)) s1))))))"

section \<open>Registration\<close>

definition sparkPodInitializer :: registeredInitializer where
  "sparkPodInitializer =
     \<lparr>Initializer_Name = initializerName,
      Rules = [\<lparr>APIGroups = [''*''], APIVersions = [''*''], Resources = [''pods'']\<rparr>]\<rparr>"

definition sparkPodInitializerConfig :: initializerConfiguration where
  "sparkPodInitializerConfig =
     \<lparr>Config_Name = initializerConfigName, Config_Initializers = [sparkPodInitializer]\<rparr>"

text \<open>The search loop of \<^verbatim>\<open>addInitializationConfig\<close>, which breaks at the first match.\<close>

primrec found_loop :: "registeredInitializer list \<Rightarrow> bool" where
  "found_loop [] = False"
| "found_loop (initializer # rest) =
     (if Initializer_Name initializer = initializerName then True else found_loop rest)"

definition addInitializationConfig :: "'w clientset \<Rightarrow> 'w sys \<Rightarrow> error option \<times> 'w sys" where
  "addInitializationConfig kubeClient s =
     (case request (ConfigGet initializerConfigName)
             (Get_Config kubeClient initializerConfigName) s of
        (Inl err, s1) \<Rightarrow>
          if IsNotFound err then
            (case request (ConfigCreate sparkPodInitializerConfig)
                    (Create_Config kubeClient sparkPodInitializerConfig) s1 of
               (Inl err, s2) \<Rightarrow> (Some (FailedToCreate err), s2)
             | (Inr _, s2) \<Rightarrow> (None, s2))
          else (Some (FailedToGet err), s1)
      | (Inr existingConfig, s1) \<Rightarrow>
          if found_loop (Config_Initializers existingConfig) then
            (None,
             logged (Warning ''InitializerConfiguration %s with Initializer %s already exists'')
               s1)
          else
            (let s2 = logged
                   (Warning ''Found InitializerConfiguration %s without Initializer %s'') s1;
                 updatedConfig = existingConfig
                   \<lparr>Config_Initializers :=
                      Config_Initializers existingConfig @ [sparkPodInitializer]\<rparr>
             in (case request (ConfigUpdate updatedConfig)
                        (Update_Config kubeClient updatedConfig) s2 of
                   (Inl err, s3) \<Rightarrow> (Some (FailedToUpdate err), s3)
                 | (Inr _, s3) \<Rightarrow> (None, s3))))"

section \<open>Concrete instances\<close>

text \<open>
  An in-memory API server, a plain instance of the libraries and a few objects, at
  which the theorems below are instantiated. The server keeps pods by namespace and name
  and registration records by name; it answers a patch with the stored pod and does
  not interpret the patch.
\<close>

record store =
  Stored_Pods :: "(string \<times> string) \<rightharpoonup> pod"
  Stored_Configs :: "string \<rightharpoonup> initializerConfiguration"

definition storeClient :: "store clientset" where
  "storeClient =
     \<lparr>Get_Pod = (\<lambda>namespace name w.
        (case Stored_Pods w (namespace, name) of None \<Rightarrow> Inl NotFound | Some p \<Rightarrow> Inr p, w)),
      Update_Pod = (\<lambda>namespace p w.
        (case Stored_Pods w (namespace, Name p) of
           None \<Rightarrow> (Inl NotFound, w)
         | Some _ \<Rightarrow> (Inr p, w\<lparr>Stored_Pods := (Stored_Pods w)((namespace, Name p) \<mapsto> p)\<rparr>))),
      Patch_Pod = (\<lambda>namespace name patch w.
        (case Stored_Pods w (namespace, name) of None \<Rightarrow> Inl NotFound | Some p \<Rightarrow> Inr p, w)),
      Get_Config = (\<lambda>name w.
        (case Stored_Configs w name of None \<Rightarrow> Inl NotFound | Some cfg \<Rightarrow> Inr cfg, w)),
      Create_Config = (\<lambda>cfg w.
        (case Stored_Configs w (Config_Name cfg) of
           Some _ \<Rightarrow> (Inl (OtherApiError ''AlreadyExists''), w)
         | None \<Rightarrow> (Inr cfg, w\<lparr>Stored_Configs := (Stored_Configs w)(Config_Name cfg \<mapsto> cfg)\<rparr>))),
      Update_Config = (\<lambda>cfg w.
        (case Stored_Configs w (Config_Name cfg) of
           None \<Rightarrow> (Inl NotFound, w)
         | Some _ \<Rightarrow> (Inr cfg, w\<lparr>Stored_Configs := (Stored_Configs w)(Config_Name cfg \<mapsto> cfg)\<rparr>)))\<rparr>"

definition zeroOwnerReference :: ownerReference where
  "zeroOwnerReference =
     \<lparr>APIVersion = '''', Kind = '''', Owner_Name = '''', UID = '''', Controller = None,
      BlockOwnerDeletion = None\<rparr>"

text \<open>
  Libraries that never fail, except that no annotation value decodes into an owner
  reference; no annotation asks for a mount.
\<close>

definition plainExt :: ext where
  "plainExt =
     \<lparr>DeepCopy_error = (\<lambda>_. None),
      Marshal = (\<lambda>p. Inr (Name p)),
      CreateTwoWayMergePatch = (\<lambda>original modified. Inr (original @ ''>'' @ modified)),
      Unmarshal = (\<lambda>_. (zeroOwnerReference, Some ''unexpected EOF'')),
      OwnerReferenceAnnotation = ''owner-reference'',
      SparkConfigMapAnnotation = ''spark-configmap'',
      HadoopConfigMapAnnotation = ''hadoop-configmap'',
      DefaultSparkConfDir = ''/etc/spark/conf'',
      DefaultHadoopConfDir = ''/etc/hadoop/conf'',
      AddSparkConfigMapVolumeToPod = (\<lambda>name p. (''spark-configmap-volume'', p)),
      MountSparkConfigMapToContainer = (\<lambda>volumeName mountPath c. c),
      AddHadoopConfigMapVolumeToPod = (\<lambda>name p. (''hadoop-configmap-volume'', p)),
      MountHadoopConfigMapToContainer = (\<lambda>volumeName mountPath c. c),
      FindGeneralConfigMaps = (\<lambda>_. []),
      AddConfigMapVolumeToPod = (\<lambda>volumeName name p. p),
      MountConfigMapToContainer = (\<lambda>volumeName mountPath c. c),
      FindGCPServiceAccountSecret = (\<lambda>_. ('''', '''', False)),
      ServiceAccountSecretVolumeName = ''gcp-service-account-secret-volume'',
      AddSecretVolumeToPod = (\<lambda>volumeName name p. p),
      MountServiceAccountSecretToContainer = (\<lambda>mountPath c. c),
      FindGeneralSecrets = (\<lambda>_. []),
      MountSecretToContainer = (\<lambda>volumeName mountPath c. c)\<rparr>"

definition samplePod :: pod where
  "samplePod =
     \<lparr>Namespace = ''ns'', Name = ''util-1'', Labels = Map.empty, Annotations = Map.empty,
      OwnerReferences = [], Initializers = None, Containers = [], Volumes = []\<rparr>"

definition sentinel :: "initializers option" where
  "sentinel = Some \<lparr>Pending = [\<lparr>Pending_Name = initializerName\<rparr>], Result = None\<rparr>"

text \<open>
  The pods of the scenarios: \<open>ns/util-1\<close> without a role label, \<open>ns/driver-1\<close> with
  the driver role and one container, \<open>ns/driver-2\<close> with no container; each but
  \<open>samplePod\<close> carries the sentinel.
\<close>

definition utilPod :: pod where
  "utilPod = samplePod\<lparr>Initializers := sentinel\<rparr>"

definition driverPod :: pod where
  "driverPod =
     \<lparr>Namespace = ''ns'', Name = ''driver-1'', Labels = [''spark-role'' \<mapsto> ''driver''],
      Annotations = Map.empty, OwnerReferences = [], Initializers = sentinel,
      Containers = [\<lparr>Container_Name = ''spark'', VolumeMounts = [], Env = []\<rparr>],
      Volumes = []\<rparr>"

definition driver2Pod :: pod where
  "driver2Pod = driverPod\<lparr>Name := ''driver-2'', Containers := []\<rparr>"

definition emptyStore :: store where
  "emptyStore = \<lparr>Stored_Pods = Map.empty, Stored_Configs = Map.empty\<rparr>"

text \<open>A state with one pod object, at address 0, and nothing done yet.\<close>

definition startWith :: "pod \<Rightarrow> store \<Rightarrow> store sys" where
  "startWith p w = \<lparr>kube = w, calls = [], queue = [], glog = [], heap = (\<lambda>_. p), brk = 1\<rparr>"

text \<open>
  The pod that the four mutation steps of \<^verbatim>\<open>syncSparkPod\<close> make of a pod, in the
  order of the source; the container pointer is the first container.
\<close>

abbreviation mutated :: "ext \<Rightarrow> pod \<Rightarrow> pod" where
  "mutated ext pod \<equiv>
     removeSelf (handleSecrets ext 0 (handleConfigMaps ext 0 (fst (addOwnerReference ext pod))))"

text \<open>A server that holds one pod.\<close>

definition podStore :: "pod \<Rightarrow> store" where
  "podStore p =
     \<lparr>Stored_Pods = [(Namespace p, Name p) \<mapsto> p], Stored_Configs = Map.empty\<rparr>"

text \<open>A server that holds one registration record, and a record of another initializer.\<close>

definition configStore :: "initializerConfiguration \<Rightarrow> store" where
  "configStore cfg =
     \<lparr>Stored_Pods = Map.empty, Stored_Configs = [Config_Name cfg \<mapsto> cfg]\<rparr>"

definition otherConfig :: initializerConfiguration where
  "otherConfig =
     \<lparr>Config_Name = initializerConfigName,
      Config_Initializers = [\<lparr>Initializer_Name = ''other.k8s.io'', Rules = []\<rparr>]\<rparr>"

section \<open>Properties of marker removal\<close>

lemma removeSelf_loop_filter:
  "removeSelf_loop ps acc = acc @ filter (\<lambda>p. Pending_Name p \<noteq> initializerName) ps"
  by (induction ps arbitrary: acc) simp_all

lemma isInitializerPresent_loop_iff:
  "isInitializerPresent_loop ps \<longleftrightarrow> (\<exists>p \<in> set ps. Pending_Name p = initializerName)"
  by (induction ps) auto

lemma filter_same_length:
  "length (filter P xs) = length xs \<Longrightarrow> filter P xs = xs"
  by (metis filter_True length_filter_less less_irrefl_nat linorder_not_less)

lemma removeSelf_some:
  "Initializers pod = Some ini \<Longrightarrow>
   removeSelf pod =
     (if filter (\<lambda>p. Pending_Name p \<noteq> initializerName) (Pending ini) = []
      then pod\<lparr>Initializers := None\<rparr>
      else pod\<lparr>Initializers :=
             Some (ini\<lparr>Pending := filter (\<lambda>p. Pending_Name p \<noteq> initializerName) (Pending ini)\<rparr>)\<rparr>)"
  by (auto simp: removeSelf_def removeSelf_loop_filter Let_def dest: filter_same_length)

lemma isInitializerPresent_removeSelf: "\<not> isInitializerPresent (removeSelf pod)"
proof (cases "Initializers pod")
  case None
  then show ?thesis by (simp add: removeSelf_def isInitializerPresent_def)
next
  case (Some ini)
  show ?thesis
    unfolding removeSelf_some [OF Some]
    by (simp add: isInitializerPresent_def isInitializerPresent_loop_iff)
qed

lemma removeSelf_absent:
  assumes "\<not> isInitializerPresent pod"
  shows "removeSelf pod =
     (if map_option Pending (Initializers pod) = Some [] then pod\<lparr>Initializers := None\<rparr>
      else pod)"
proof (cases "Initializers pod")
  case None
  then show ?thesis by (simp add: removeSelf_def)
next
  case (Some ini)
  from assms Some have "\<forall>p \<in> set (Pending ini). Pending_Name p \<noteq> initializerName"
    by (simp add: isInitializerPresent_def isInitializerPresent_loop_iff)
  then have f: "filter (\<lambda>p. Pending_Name p \<noteq> initializerName) (Pending ini) = Pending ini"
    by simp
  have "pod\<lparr>Initializers := Initializers pod\<rparr> = pod"
    by simp
  then have "pod\<lparr>Initializers := Some ini\<rparr> = pod"
    using Some by simp
  then show ?thesis
    unfolding removeSelf_some [OF Some] f using Some by simp
qed

lemma removeSelf_twice: "removeSelf (removeSelf pod) = removeSelf pod"
proof -
  have "map_option Pending (Initializers (removeSelf pod)) \<noteq> Some []"
  proof (cases "Initializers pod")
    case None
    then show ?thesis by (simp add: removeSelf_def)
  next
    case (Some ini)
    show ?thesis unfolding removeSelf_some [OF Some] by simp
  qed
  with removeSelf_absent [OF isInitializerPresent_removeSelf, of pod] show ?thesis
    by (simp only: if_False)
qed

section \<open>Helper lemmas about the reconciliation paths\<close>

lemma request_eq:
  "request call f s =
     (fst (f (kube s)), s\<lparr>kube := snd (f (kube s)), calls := calls s @ [call]\<rparr>)"
  by (simp add: request_def split: prod.splits)

lemma Namespace_removeSelf [simp]: "Namespace (removeSelf p) = Namespace p"
  by (simp add: removeSelf_def Let_def split: option.splits)

lemma Name_removeSelf [simp]: "Name (removeSelf p) = Name p"
  by (simp add: removeSelf_def Let_def split: option.splits)

lemma handleNonSparkPod_eq:
  "handleNonSparkPod ext c a s =
     (case DeepCopy_error ext (heap s a) of
        Some msg \<Rightarrow> (Some (Lib msg), s)
      | None \<Rightarrow>
          (case Update_Pod c (Namespace (heap s a)) (removeSelf (heap s a)) (kube s) of
             (r, w) \<Rightarrow>
               (case r of Inl err \<Rightarrow> Some (Api err) | Inr _ \<Rightarrow> None,
                s\<lparr>kube := w,
                  calls := calls s @ [PodsUpdate (Namespace (heap s a)) (removeSelf (heap s a))],
                  heap := (heap s)(brk s := removeSelf (heap s a)),
                  brk := Suc (brk s)\<rparr>)))"
  by (simp add: handleNonSparkPod_def DeepCopy_def new_def modify_def updatePod_def request_eq
           split: option.splits prod.splits sum.splits)

lemma queue_handleNonSparkPod: "queue (snd (handleNonSparkPod ext c a s)) = queue s"
  by (simp add: handleNonSparkPod_eq split: option.splits prod.splits)

lemma isSparkPod_iff:
  "isSparkPod pod \<longleftrightarrow>
     Labels pod ''spark-role'' = Some ''driver'' \<or> Labels pod ''spark-role'' = Some ''executor''"
  by (auto simp: isSparkPod_def sparkRoleLabel_def sparkDriverRole_def sparkExecutorRole_def
           split: option.splits)

lemma isInitializerPresent_iff:
  "isInitializerPresent pod \<longleftrightarrow>
     (\<exists>ini. Initializers pod = Some ini \<and>
        (\<exists>p \<in> set (Pending ini). Pending_Name p = ''pod-initializer.spark-operator.k8s.io''))"
  by (simp add: isInitializerPresent_def isInitializerPresent_loop_iff initializerName_def
           split: option.splits)

lemma patchPod_frame:
  "queue (snd (patchPod ext c a b s)) = queue s \<and>
   heap (snd (patchPod ext c a b s)) = heap s \<and>
   glog (snd (patchPod ext c a b s)) = glog s \<and>
   brk (snd (patchPod ext c a b s)) = brk s"
  by (simp add: patchPod_def request_eq split: sum.splits prod.splits)

lemma syncSparkPod_not_found:
  assumes "getNamespaceName key = (ns, n, e)"
    and "Get_Pod c ns n (kube s) = (Inl NotFound, w1)"
  shows "syncSparkPod ext c key s =
     (Returned (Inr None), s\<lparr>kube := w1, calls := calls s @ [PodsGet ns n]\<rparr>)"
  using assms by (simp add: syncSparkPod_def request_eq IsNotFound_def)

lemma syncSparkPod_fetch_error:
  assumes "getNamespaceName key = (ns, n, e)"
    and "Get_Pod c ns n (kube s) = (Inl err, w1)" and "err \<noteq> NotFound"
  shows "syncSparkPod ext c key s =
     (Returned (Inl (Api err)), s\<lparr>kube := w1, calls := calls s @ [PodsGet ns n]\<rparr>)"
  using assms by (simp add: syncSparkPod_def request_eq IsNotFound_def)

lemma syncSparkPod_copy_error:
  assumes "getNamespaceName key = (ns, n, e)"
    and "Get_Pod c ns n (kube s) = (Inr fetched, w1)"
    and "DeepCopy_error ext fetched = Some msg"
  shows "syncSparkPod ext c key s =
     (Returned (Inl (Lib msg)),
      s\<lparr>kube := w1, calls := calls s @ [PodsGet ns n],
        heap := (heap s)(brk s := fetched), brk := Suc (brk s)\<rparr>)"
  using assms by (simp add: syncSparkPod_def request_eq new_def DeepCopy_def)

lemma syncSparkPod_no_container:
  assumes "getNamespaceName key = (ns, n, e)"
    and "Get_Pod c ns n (kube s) = (Inr fetched, w1)"
    and "DeepCopy_error ext fetched = None"
    and "Containers fetched = []"
  shows "syncSparkPod ext c key s =
     (Returned (Inl (NoContainerFound (Name fetched))),
      s\<lparr>kube := w1, calls := calls s @ [PodsGet ns n],
        heap := (heap s)(brk s := fetched, Suc (brk s) := fetched), brk := Suc (Suc (brk s))\<rparr>)"
  using assms by (simp add: syncSparkPod_def request_eq new_def DeepCopy_def)

lemma syncSparkPod_mutates:
  assumes "getNamespaceName key = (ns, n, e)"
    and "Get_Pod c ns n (kube s) = (Inr fetched, w1)"
    and "DeepCopy_error ext fetched = None"
    and "Containers fetched \<noteq> []"
  shows "syncSparkPod ext c key s =
     (let r = patchPod ext c (brk s) (Suc (brk s))
             (s\<lparr>kube := w1, calls := calls s @ [PodsGet ns n],
                brk := Suc (Suc (brk s)),
                glog := glog s @ snd (addOwnerReference ext fetched),
                heap := (heap s)
                  (brk s := fetched,
                   Suc (brk s) :=
                     removeSelf (handleSecrets ext 0 (handleConfigMaps ext 0
                       (fst (addOwnerReference ext fetched)))))\<rparr>)
      in (Returned (case fst r of Inl err \<Rightarrow> Inl err | Inr p \<Rightarrow> Inr (Some p)), snd r))"
  using assms
  by (simp add: syncSparkPod_def request_eq new_def DeepCopy_def modify_def Let_def
        case_prod_beta split: sum.splits)

lemma syncSparkPod_cases:
  obtains (not_found) ns n e w1 where "getNamespaceName key = (ns, n, e)"
      "Get_Pod c ns n (kube s) = (Inl NotFound, w1)"
  | (fetch_error) ns n e w1 err where "getNamespaceName key = (ns, n, e)"
      "Get_Pod c ns n (kube s) = (Inl err, w1)" "err \<noteq> NotFound"
  | (copy_error) ns n e w1 fetched msg where "getNamespaceName key = (ns, n, e)"
      "Get_Pod c ns n (kube s) = (Inr fetched, w1)" "DeepCopy_error ext fetched = Some msg"
  | (no_container) ns n e w1 fetched where "getNamespaceName key = (ns, n, e)"
      "Get_Pod c ns n (kube s) = (Inr fetched, w1)" "DeepCopy_error ext fetched = None"
      "Containers fetched = []"
  | (mutates) ns n e w1 fetched where "getNamespaceName key = (ns, n, e)"
      "Get_Pod c ns n (kube s) = (Inr fetched, w1)" "DeepCopy_error ext fetched = None"
      "Containers fetched \<noteq> []"
proof -
  obtain ns n e where k: "getNamespaceName key = (ns, n, e)"
    by (cases "getNamespaceName key") auto
  obtain r w1 where g: "Get_Pod c ns n (kube s) = (r, w1)"
    by (cases "Get_Pod c ns n (kube s)") auto
  show thesis
  proof (cases r)
    case (Inl err)
    then show ?thesis using k g not_found fetch_error by (cases "err = NotFound") auto
  next
    case (Inr fetched)
    then show ?thesis using k g copy_error no_container mutates
      by (cases "DeepCopy_error ext fetched"; cases "Containers fetched = []") auto
  qed
qed

lemma syncSparkPod_queue: "queue (snd (syncSparkPod ext c key s)) = queue s"
  by (cases rule: syncSparkPod_cases [where key=key and c=c and s=s and ext=ext])
     (simp_all add: syncSparkPod_not_found syncSparkPod_fetch_error syncSparkPod_copy_error
        syncSparkPod_no_container syncSparkPod_mutates patchPod_frame Let_def)

lemma syncSparkPod_heap:
  "a < brk s \<Longrightarrow> heap (snd (syncSparkPod ext c key s)) a = heap s a"
  by (cases rule: syncSparkPod_cases [where key=key and c=c and s=s and ext=ext])
     (simp_all add: syncSparkPod_not_found syncSparkPod_fetch_error syncSparkPod_copy_error
        syncSparkPod_no_container syncSparkPod_mutates patchPod_frame Let_def)

lemma syncSparkPod_returns: "\<exists>r. fst (syncSparkPod ext c key s) = Returned r"
  by (cases rule: syncSparkPod_cases [where key=key and c=c and s=s and ext=ext])
     (simp_all add: syncSparkPod_not_found syncSparkPod_fetch_error syncSparkPod_copy_error
        syncSparkPod_no_container syncSparkPod_mutates patchPod_frame Let_def)

lemma patchPod_error:
  "fst (patchPod ext c a b s) = Inl err \<Longrightarrow> err \<noteq> MalformedQueueKey k"
  by (auto simp: patchPod_def request_eq case_prod_beta split: sum.splits)

lemma syncSparkPod_not_malformed:
  "fst (syncSparkPod ext c key s) \<noteq> Returned (Inl (MalformedQueueKey k))"
  by (cases rule: syncSparkPod_cases [where key=key and c=c and s=s and ext=ext])
     (auto simp: syncSparkPod_not_found syncSparkPod_fetch_error syncSparkPod_copy_error
        syncSparkPod_no_container syncSparkPod_mutates Let_def split: sum.splits
        dest: patchPod_error)

lemma calls_handleNonSparkPod:
  "calls (snd (handleNonSparkPod ext c a s)) =
     (if DeepCopy_error ext (heap s a) = None
      then calls s @ [PodsUpdate (Namespace (heap s a)) (removeSelf (heap s a))]
      else calls s)"
  by (simp add: handleNonSparkPod_eq split: option.splits prod.splits)

lemma present_utilPod: "isInitializerPresent utilPod"
  by (simp add: utilPod_def sentinel_def isInitializerPresent_def)

lemma present_driverPod: "isInitializerPresent driverPod"
  by (simp add: driverPod_def sentinel_def isInitializerPresent_def)

lemma absent_samplePod: "\<not> isInitializerPresent samplePod"
  by (simp add: samplePod_def isInitializerPresent_def)

lemma spark_driverPod: "isSparkPod driverPod"
  by (simp add: driverPod_def isSparkPod_def sparkRoleLabel_def sparkDriverRole_def)

lemma not_spark_utilPod: "\<not> isSparkPod utilPod"
  by (simp add: utilPod_def samplePod_def isSparkPod_def)

lemma removeSelf_utilPod: "removeSelf utilPod = samplePod"
  by (simp add: removeSelf_def utilPod_def sentinel_def samplePod_def)

lemma heap_startWith: "heap (startWith p w) a = p"
  by (simp add: startWith_def)

lemma syncSparkPod_patch:
  assumes "getNamespaceName key = (ns, n, e)"
    and "Get_Pod c ns n (kube s) = (Inr fetched, w1)"
    and "DeepCopy_error ext fetched = None"
    and "Containers fetched \<noteq> []"
    and "Marshal ext fetched = Inr originalData"
    and "Marshal ext (mutated ext fetched) = Inr modifiedData"
    and "CreateTwoWayMergePatch ext originalData modifiedData = Inr patch"
    and "Patch_Pod c (Namespace fetched) (Name fetched) patch w1 = (r, w2)"
  shows "syncSparkPod ext c key s =
     (Returned (case r of Inl err \<Rightarrow> Inl (Api err) | Inr p \<Rightarrow> Inr (Some p)),
      s\<lparr>kube := w2,
        calls := calls s @ [PodsGet ns n, PodsPatch (Namespace fetched) (Name fetched) patch],
        glog := glog s @ snd (addOwnerReference ext fetched),
        heap := (heap s)(brk s := fetched, Suc (brk s) := mutated ext fetched),
        brk := Suc (Suc (brk s))\<rparr>)"
  unfolding syncSparkPod_mutates [OF assms(1-4)]
  using assms(5-8)
  by (simp add: patchPod_def request_eq Let_def split: sum.splits)

lemma processNextItem_eq:
  "processNextItem h (key, False) s =
     (case h key (enqueue Get s) of
        (Panicked msg, s1) \<Rightarrow> (Panicked msg, enqueue (Done key) s1)
      | (Returned (Inr r), s1) \<Rightarrow> (Returned True, enqueue (Done key) (enqueue (Forget key) s1))
      | (Returned (Inl err), s1) \<Rightarrow>
          (Returned True,
           enqueue (Done key) (enqueue (AddRateLimited key)
             (logged (HandleError (FailedToSync key err)) s1))))"
  by (simp add: processNextItem_def Let_def)

lemma processNextItem_sync_success:
  assumes "fst (syncSparkPod ext c key (enqueue Get s)) = Returned (Inr res)"
  shows "fst (processNextItem (syncSparkPod ext c) (key, False) s) = Returned True \<and>
         queue (snd (processNextItem (syncSparkPod ext c) (key, False) s)) =
           queue s @ [Get, Forget key, Done key]"
proof -
  obtain s1 where "syncSparkPod ext c key (enqueue Get s) = (Returned (Inr res), s1)"
    using assms by (cases "syncSparkPod ext c key (enqueue Get s)") auto
  moreover from this have "queue s1 = queue s @ [Get]"
    using syncSparkPod_queue [of ext c key "enqueue Get s"] by (simp add: enqueue_def)
  ultimately show ?thesis
    by (simp add: processNextItem_eq enqueue_def)
qed

lemma processNextItem_sync_failure:
  assumes "fst (syncSparkPod ext c key (enqueue Get s)) = Returned (Inl err)"
  shows "fst (processNextItem (syncSparkPod ext c) (key, False) s) = Returned True \<and>
         queue (snd (processNextItem (syncSparkPod ext c) (key, False) s)) =
           queue s @ [Get, AddRateLimited key, Done key]"
proof -
  obtain s1 where "syncSparkPod ext c key (enqueue Get s) = (Returned (Inl err), s1)"
    using assms by (cases "syncSparkPod ext c key (enqueue Get s)") auto
  moreover from this have "queue s1 = queue s @ [Get]"
    using syncSparkPod_queue [of ext c key "enqueue Get s"] by (simp add: enqueue_def)
  ultimately show ?thesis
    by (simp add: processNextItem_eq enqueue_def logged_def)
qed

lemma processNextItem_sync_done_once:
  "count_list (drop (length (queue s))
      (queue (snd (processNextItem (syncSparkPod ext c) (key, False) s)))) (Done key) = 1"
proof -
  obtain r where r: "fst (syncSparkPod ext c key (enqueue Get s)) = Returned r"
    using syncSparkPod_returns by blast
  show ?thesis
  proof (cases r)
    case (Inl err)
    with r processNextItem_sync_failure [of ext c key s err] show ?thesis by simp
  next
    case (Inr res)
    with r processNextItem_sync_success [of ext c key s res] show ?thesis by simp
  qed
qed

lemma kube_enqueue [simp]: "kube (enqueue q s) = kube s"
  by (simp add: enqueue_def)

lemma getNamespaceName_driver1: "getNamespaceName ''ns/driver-1'' = (''ns'', ''driver-1'', None)"
  by (simp add: getNamespaceName_def)

lemma getNamespaceName_driver2: "getNamespaceName ''ns/driver-2'' = (''ns'', ''driver-2'', None)"
  by (simp add: getNamespaceName_def)

lemma Get_Pod_emptyStore: "Get_Pod storeClient ns n emptyStore = (Inl NotFound, emptyStore)"
  by (simp add: storeClient_def emptyStore_def)

lemma Get_Pod_podStore:
  "Get_Pod storeClient (Namespace p) (Name p) (podStore p) = (Inr p, podStore p)"
  by (simp add: storeClient_def podStore_def)

lemma driver2Pod_fields:
  "Namespace driver2Pod = ''ns''" "Name driver2Pod = ''driver-2''" "Containers driver2Pod = []"
  by (simp_all add: driver2Pod_def driverPod_def)

lemma startWith_fields:
  "kube (startWith p w) = w" "calls (startWith p w) = []" "queue (startWith p w) = []"
  "glog (startWith p w) = []" "brk (startWith p w) = 1"
  by (simp_all add: startWith_def)

lemma DeepCopy_error_plainExt: "DeepCopy_error plainExt p = None"
  by (simp add: plainExt_def)

lemma syncSparkPod_no_container_calls:
  assumes "getNamespaceName key = (ns, n, e)"
    and "Get_Pod c ns n (kube s) = (Inr fetched, w1)"
    and "Containers fetched = []"
  shows "(\<exists>err. fst (syncSparkPod ext c key s) = Returned (Inl err)) \<and>
         calls (snd (syncSparkPod ext c key s)) = calls s @ [PodsGet ns n] \<and>
         glog (snd (syncSparkPod ext c key s)) = glog s"
proof (cases "DeepCopy_error ext fetched")
  case None
  show ?thesis by (simp add: syncSparkPod_no_container [OF assms(1,2) None assms(3)])
next
  case (Some msg)
  show ?thesis by (simp add: syncSparkPod_copy_error [OF assms(1,2) Some])
qed

lemma syncSparkPod_no_panic: "fst (syncSparkPod ext c key s) \<noteq> Panicked msg"
  using syncSparkPod_returns [of ext c key s] by auto

lemma handleNonSparkPod_heap:
  "a < brk s \<Longrightarrow> heap (snd (handleNonSparkPod ext c pod s)) a = heap s a"
  by (simp add: handleNonSparkPod_eq split: option.splits prod.splits)

lemma handleNonSparkPod_copy:
  "DeepCopy_error ext (heap s pod) = None \<Longrightarrow>
   heap (snd (handleNonSparkPod ext c pod s)) (brk s) = removeSelf (heap s pod)"
  by (simp add: handleNonSparkPod_eq split: option.splits prod.splits)

lemma syncSparkPod_mutates_heap:
  assumes "getNamespaceName key = (ns, n, e)"
    and "Get_Pod c ns n (kube s) = (Inr fetched, w1)"
    and "DeepCopy_error ext fetched = None"
    and "Containers fetched \<noteq> []"
  shows "heap (snd (syncSparkPod ext c key s)) (brk s) = fetched \<and>
         heap (snd (syncSparkPod ext c key s)) (Suc (brk s)) = mutated ext fetched"
  by (simp add: syncSparkPod_mutates [OF assms] Let_def patchPod_frame)

lemma syncSparkPod_patch_calls:
  assumes "getNamespaceName key = (ns, n, e)"
    and "Get_Pod c ns n (kube s) = (Inr fetched, w1)"
    and "DeepCopy_error ext fetched = None"
    and "Containers fetched \<noteq> []"
    and "Marshal ext fetched = Inr originalData"
    and "Marshal ext (mutated ext fetched) = Inr modifiedData"
    and "CreateTwoWayMergePatch ext originalData modifiedData = Inr patch"
  shows "calls (snd (syncSparkPod ext c key s)) =
     calls s @ [PodsGet ns n, PodsPatch (Namespace fetched) (Name fetched) patch]"
proof -
  obtain r w2 where "Patch_Pod c (Namespace fetched) (Name fetched) patch w1 = (r, w2)"
    by (cases "Patch_Pod c (Namespace fetched) (Name fetched) patch w1") auto
  from syncSparkPod_patch [OF assms this] show ?thesis by simp
qed

lemma Split_no_sep: "sep \<notin> set xs \<Longrightarrow> Split xs sep = [xs]"
  by (induction xs) auto

lemma Split_at_sep: "sep \<notin> set xs \<Longrightarrow> Split (xs @ sep # ys) sep = xs # Split ys sep"
  by (induction xs) auto

lemma getNamespaceName_getQueueKey:
  assumes "CHR ''/'' \<notin> set (Namespace pod)" and "CHR ''/'' \<notin> set (Name pod)"
  shows "getNamespaceName (getQueueKey pod) = (Namespace pod, Name pod, None)"
proof -
  have "Split (getQueueKey pod) (CHR ''/'') = [Namespace pod, Name pod]"
    using Split_at_sep [OF assms(1), of "Name pod"] Split_no_sep [OF assms(2)]
    by (simp add: getQueueKey_def)
  then show ?thesis by (simp add: getNamespaceName_def)
qed

lemma getNamespaceName_malformed:
  "length (Split key (CHR ''/'')) \<noteq> 2 \<Longrightarrow>
   getNamespaceName key = ('''', '''', Some (MalformedQueueKey key))"
  by (simp add: getNamespaceName_def)

lemma getNamespaceName_slash: "getNamespaceName ''/'' = ('''', '''', None)"
  by (simp add: getNamespaceName_def)

lemma syncSparkPod_key:
  "getNamespaceName key = (ns, n, e) \<Longrightarrow> getNamespaceName key' = (ns, n, e') \<Longrightarrow>
   syncSparkPod ext c key s = syncSparkPod ext c key' s"
  by (simp add: syncSparkPod_def)

lemma patchPod_calls:
  "take (length (calls s)) (calls (snd (patchPod ext c a b s))) = calls s"
  by (simp add: patchPod_def request_eq case_prod_beta split: sum.splits)

lemma syncSparkPod_first_call:
  assumes "getNamespaceName key = (ns, n, e)"
  shows "take (Suc (length (calls s))) (calls (snd (syncSparkPod ext c key s))) =
     calls s @ [PodsGet ns n]"
proof (cases rule: syncSparkPod_cases [where key=key and c=c and s=s and ext=ext])
  case (mutates ns' n' e' w1 fetched)
  with assms have eq: "ns' = ns" "n' = n" by simp_all
  show ?thesis
    using patchPod_calls [of "s\<lparr>kube := w1, calls := calls s @ [PodsGet ns n],
                brk := Suc (Suc (brk s)),
                glog := glog s @ snd (addOwnerReference ext fetched),
                heap := (heap s)
                  (brk s := fetched, Suc (brk s) := mutated ext fetched)\<rparr>" ext c "brk s" "Suc (brk s)"]
    by (simp add: syncSparkPod_mutates [OF mutates] Let_def eq)
qed (use assms in \<open>simp_all add: syncSparkPod_not_found syncSparkPod_fetch_error
      syncSparkPod_copy_error syncSparkPod_no_container\<close>)

lemma mutated_driverPod: "mutated plainExt driverPod = driverPod\<lparr>Initializers := None\<rparr>"
  by (simp add: addOwnerReference_def handleConfigMaps_def handleSecrets_def plainExt_def
        driverPod_def removeSelf_def sentinel_def)

lemma driverPod_fields:
  "Namespace driverPod = ''ns''" "Name driverPod = ''driver-1''" "Containers driverPod \<noteq> []"
  by (simp_all add: driverPod_def)

lemma Marshal_plainExt: "Marshal plainExt p = Inr (Name p)"
  by (simp add: plainExt_def)

lemma CreateTwoWayMergePatch_plainExt:
  "CreateTwoWayMergePatch plainExt original modified = Inr (original @ ''>'' @ modified)"
  by (simp add: plainExt_def)

lemma found_loop_iff:
  "found_loop inits \<longleftrightarrow> (\<exists>i \<in> set inits. Initializer_Name i = initializerName)"
  by (induction inits) auto

lemma addInitializationConfig_absent:
  assumes "Get_Config c initializerConfigName (kube s) = (Inl NotFound, w1)"
    and "Create_Config c sparkPodInitializerConfig w1 = (r, w2)"
  shows "addInitializationConfig c s =
     (case r of Inl err \<Rightarrow> Some (FailedToCreate err) | Inr _ \<Rightarrow> None,
      s\<lparr>kube := w2,
        calls := calls s @
          [ConfigGet initializerConfigName, ConfigCreate sparkPodInitializerConfig]\<rparr>)"
  using assms
  by (simp add: addInitializationConfig_def request_eq IsNotFound_def split: sum.splits)

lemma addInitializationConfig_present:
  assumes "Get_Config c initializerConfigName (kube s) = (Inr existingConfig, w1)"
    and "\<exists>i \<in> set (Config_Initializers existingConfig). Initializer_Name i = initializerName"
  shows "addInitializationConfig c s =
     (None,
      s\<lparr>kube := w1, calls := calls s @ [ConfigGet initializerConfigName],
        glog := glog s @
          [Warning ''InitializerConfiguration %s with Initializer %s already exists'']\<rparr>)"
  using assms
  by (simp add: addInitializationConfig_def request_eq found_loop_iff logged_def)

lemma addInitializationConfig_append:
  assumes "Get_Config c initializerConfigName (kube s) = (Inr existingConfig, w1)"
    and "\<not> (\<exists>i \<in> set (Config_Initializers existingConfig).
            Initializer_Name i = initializerName)"
    and "Update_Config c
           (existingConfig\<lparr>Config_Initializers :=
              Config_Initializers existingConfig @ [sparkPodInitializer]\<rparr>) w1 = (r, w2)"
  shows "addInitializationConfig c s =
     (case r of Inl err \<Rightarrow> Some (FailedToUpdate err) | Inr _ \<Rightarrow> None,
      s\<lparr>kube := w2,
        calls := calls s @
          [ConfigGet initializerConfigName,
           ConfigUpdate (existingConfig\<lparr>Config_Initializers :=
              Config_Initializers existingConfig @ [sparkPodInitializer]\<rparr>)],
        glog := glog s @
          [Warning ''Found InitializerConfiguration %s without Initializer %s'']\<rparr>)"
  using assms
  by (simp add: addInitializationConfig_def request_eq found_loop_iff logged_def Let_def
        split: sum.splits)

lemma own_entries_created:
  "filter (\<lambda>i. Initializer_Name i = initializerName)
     (Config_Initializers sparkPodInitializerConfig) = [sparkPodInitializer]"
  by (simp add: sparkPodInitializerConfig_def sparkPodInitializer_def)

lemma own_entries_appended:
  "\<not> (\<exists>i \<in> set inits. Initializer_Name i = initializerName) \<Longrightarrow>
   filter (\<lambda>i. Initializer_Name i = initializerName) (inits @ [sparkPodInitializer]) =
     [sparkPodInitializer]"
  by (simp add: sparkPodInitializer_def filter_empty_conv)

lemma addInitializationConfig_twice:
  assumes "Get_Config c initializerConfigName (kube s) = (Inl NotFound, w1)"
    and "Create_Config c sparkPodInitializerConfig w1 = (Inr created, w2)"
    and "Get_Config c initializerConfigName w2 = (Inr sparkPodInitializerConfig, w3)"
  shows "addInitializationConfig c (snd (addInitializationConfig c s)) =
     (None,
      s\<lparr>kube := w3,
        calls := calls s @
          [ConfigGet initializerConfigName, ConfigCreate sparkPodInitializerConfig,
           ConfigGet initializerConfigName],
        glog := glog s @
          [Warning ''InitializerConfiguration %s with Initializer %s already exists'']\<rparr>) \<and>
     fst (addInitializationConfig c s) = None"
proof -
  have first: "addInitializationConfig c s =
     (None, s\<lparr>kube := w2, calls := calls s @
          [ConfigGet initializerConfigName, ConfigCreate sparkPodInitializerConfig]\<rparr>)"
    using addInitializationConfig_absent [OF assms(1,2)] by simp
  have "\<exists>i \<in> set (Config_Initializers sparkPodInitializerConfig).
      Initializer_Name i = initializerName"
    by (simp add: sparkPodInitializerConfig_def sparkPodInitializer_def)
  from addInitializationConfig_present [where s = "snd (addInitializationConfig c s)"
      and c = c and existingConfig = sparkPodInitializerConfig and ?w1.0 = w3, OF _ this]
    assms(3) first
  show ?thesis by simp
qed

lemma Get_Config_emptyStore: "Get_Config storeClient name emptyStore = (Inl NotFound, emptyStore)"
  by (simp add: storeClient_def emptyStore_def)

lemma Create_Config_emptyStore:
  "Create_Config storeClient cfg emptyStore = (Inr cfg, configStore cfg)"
  by (simp add: storeClient_def emptyStore_def configStore_def)

lemma Get_Config_configStore:
  "Get_Config storeClient (Config_Name cfg) (configStore cfg) = (Inr cfg, configStore cfg)"
  by (simp add: storeClient_def configStore_def)

lemma Update_Config_configStore:
  "Config_Name cfg' = Config_Name cfg \<Longrightarrow>
   Update_Config storeClient cfg' (configStore cfg) = (Inr cfg', configStore cfg')"
  by (simp add: storeClient_def configStore_def)

lemma Config_Name_fields:
  "Config_Name sparkPodInitializerConfig = initializerConfigName"
  "Config_Name otherConfig = initializerConfigName"
  by (simp_all add: sparkPodInitializerConfig_def otherConfig_def)

text \<open>
  Claim C1. On a pod whose \<open>Initializers\<close> field is present, \<open>removeSelf\<close> leaves in the
  pending list exactly the entries not named \<open>initializerName\<close>, in their order; when
  none is left it sets the field to nil; it changes no other field. A pod whose field
  is nil is returned as it is.
\<close>

theorem removeSelf_exact:
  "removeSelf pod =
     (case Initializers pod of
        None \<Rightarrow> pod
      | Some ini \<Rightarrow>
          (let others = filter (\<lambda>p. Pending_Name p \<noteq> initializerName) (Pending ini) in
           if others = [] then pod\<lparr>Initializers := None\<rparr>
           else pod\<lparr>Initializers := Some (ini\<lparr>Pending := others\<rparr>)\<rparr>))"
proof (cases "Initializers pod")
  case None
  then show ?thesis by (simp add: removeSelf_def)
next
  case (Some ini)
  then show ?thesis using removeSelf_some [OF Some] by (simp add: Let_def)
qed

text \<open>
  Claim C6, as stated, fails at one point: \<open>removeSelf\<close> is not a no-op on every pod
  whose pending list lacks this initializer's name. A pod whose \<open>Initializers\<close> field
  is present with an empty pending list has the field set to nil.
\<close>

theorem removeSelf_noop_counterexample:
  "\<not> isInitializerPresent
       (samplePod\<lparr>Initializers := Some \<lparr>Pending = [], Result = Some ''Failure''\<rparr>\<rparr>) \<and>
   removeSelf (samplePod\<lparr>Initializers := Some \<lparr>Pending = [], Result = Some ''Failure''\<rparr>\<rparr>) \<noteq>
     samplePod\<lparr>Initializers := Some \<lparr>Pending = [], Result = Some ''Failure''\<rparr>\<rparr>"
  by (simp add: isInitializerPresent_def removeSelf_def samplePod_def)

text \<open>
  Claim C6, amended. Applying \<open>removeSelf\<close> twice gives what applying it once gives;
  after one application the sentinel is absent; and on a pod whose pending list lacks
  this initializer's name \<open>removeSelf\<close> changes nothing, unless the \<open>Initializers\<close> field
  is present with an empty pending list, in which case it sets the field to nil.
\<close>

theorem removeSelf_idempotent:
  "removeSelf (removeSelf pod) = removeSelf pod \<and>
   \<not> isInitializerPresent (removeSelf pod) \<and>
   (\<not> isInitializerPresent pod \<longrightarrow>
      removeSelf pod =
        (if map_option Pending (Initializers pod) = Some [] then pod\<lparr>Initializers := None\<rparr>
         else pod))"
  using removeSelf_twice isInitializerPresent_removeSelf removeSelf_absent by blast

theorem removeSelf_idempotent_witness:
  "\<not> isInitializerPresent
       (samplePod\<lparr>Initializers :=
          Some \<lparr>Pending = [\<lparr>Pending_Name = ''other.k8s.io''\<rparr>], Result = None\<rparr>\<rparr>) \<and>
   removeSelf
       (samplePod\<lparr>Initializers :=
          Some \<lparr>Pending = [\<lparr>Pending_Name = ''other.k8s.io''\<rparr>], Result = None\<rparr>\<rparr>) =
     samplePod\<lparr>Initializers :=
       Some \<lparr>Pending = [\<lparr>Pending_Name = ''other.k8s.io''\<rparr>], Result = None\<rparr>\<rparr>"
  using removeSelf_idempotent
    [of "samplePod\<lparr>Initializers :=
           Some \<lparr>Pending = [\<lparr>Pending_Name = ''other.k8s.io''\<rparr>], Result = None\<rparr>\<rparr>"]
  by (simp add: isInitializerPresent_def initializerName_def)

text \<open>
  Claim C2. On an add event that carries a pod: when the pending list holds this
  initializer's name and the \<open>spark-role\<close> label is \<open>driver\<close> or \<open>executor\<close>,
  \<open>onPodAdded\<close> invokes \<open>AddRateLimited\<close> with the key namespace/name on the queue and
  does nothing else; when the name is pending and the label is missing or has another
  value, it runs \<open>handleNonSparkPod\<close> before it returns (the update request is sent
  unless the deep copy fails) and invokes nothing on the queue; when the name is not
  pending it changes nothing.
\<close>

theorem onPodAdded_classification:
  assumes "heap s a = pod"
  shows
  "(isInitializerPresent pod \<longleftrightarrow>
      (\<exists>ini. Initializers pod = Some ini \<and>
         (\<exists>p \<in> set (Pending ini). Pending_Name p = ''pod-initializer.spark-operator.k8s.io''))) \<and>
   (isSparkPod pod \<longleftrightarrow>
      Labels pod ''spark-role'' = Some ''driver'' \<or> Labels pod ''spark-role'' = Some ''executor'') \<and>
   (isInitializerPresent pod \<and> isSparkPod pod \<longrightarrow>
      onPodAdded ext c (PodObject a) s =
        (Returned (), s\<lparr>queue := queue s @ [AddRateLimited (Namespace pod @ ''/'' @ Name pod)]\<rparr>)) \<and>
   (isInitializerPresent pod \<and> \<not> isSparkPod pod \<longrightarrow>
      onPodAdded ext c (PodObject a) s = (Returned (), snd (handleNonSparkPod ext c a s)) \<and>
      queue (snd (onPodAdded ext c (PodObject a) s)) = queue s \<and>
      calls (snd (onPodAdded ext c (PodObject a) s)) =
        (if DeepCopy_error ext pod = None
         then calls s @ [PodsUpdate (Namespace pod) (removeSelf pod)] else calls s)) \<and>
   (\<not> isInitializerPresent pod \<longrightarrow> onPodAdded ext c (PodObject a) s = (Returned (), s))"
proof -
  have "isInitializerPresent pod \<and> isSparkPod pod \<longrightarrow>
      onPodAdded ext c (PodObject a) s =
        (Returned (), s\<lparr>queue := queue s @ [AddRateLimited (Namespace pod @ ''/'' @ Name pod)]\<rparr>)"
    using assms by (simp add: onPodAdded_def assertPod_def enqueue_def getQueueKey_def)
  moreover have "isInitializerPresent pod \<and> \<not> isSparkPod pod \<longrightarrow>
      onPodAdded ext c (PodObject a) s = (Returned (), snd (handleNonSparkPod ext c a s))"
    using assms by (simp add: onPodAdded_def assertPod_def)
  moreover have "\<not> isInitializerPresent pod \<longrightarrow> onPodAdded ext c (PodObject a) s = (Returned (), s)"
    using assms by (simp add: onPodAdded_def assertPod_def)
  ultimately show ?thesis
    using assms isSparkPod_iff [of pod] isInitializerPresent_iff [of pod]
    by (simp add: queue_handleNonSparkPod calls_handleNonSparkPod)
qed

theorem onPodAdded_classification_witness:
  "onPodAdded plainExt storeClient (PodObject 0) (startWith driverPod emptyStore) =
     (Returned (), (startWith driverPod emptyStore)\<lparr>queue := [AddRateLimited ''ns/driver-1'']\<rparr>) \<and>
   queue (snd (onPodAdded plainExt storeClient (PodObject 0) (startWith utilPod emptyStore))) = [] \<and>
   calls (snd (onPodAdded plainExt storeClient (PodObject 0) (startWith utilPod emptyStore))) =
     [PodsUpdate ''ns'' samplePod] \<and>
   onPodAdded plainExt storeClient (PodObject 0) (startWith samplePod emptyStore) =
     (Returned (), startWith samplePod emptyStore)"
proof -
  note driver = onPodAdded_classification
    [OF heap_startWith [of driverPod emptyStore 0], of plainExt storeClient]
  note util = onPodAdded_classification
    [OF heap_startWith [of utilPod emptyStore 0], of plainExt storeClient]
  note plain = onPodAdded_classification
    [OF heap_startWith [of samplePod emptyStore 0], of plainExt storeClient]
  have "onPodAdded plainExt storeClient (PodObject 0) (startWith driverPod emptyStore) =
     (Returned (), (startWith driverPod emptyStore)
        \<lparr>queue := queue (startWith driverPod emptyStore) @
           [AddRateLimited (Namespace driverPod @ ''/'' @ Name driverPod)]\<rparr>)"
    using driver present_driverPod spark_driverPod by blast
  moreover have "queue (startWith driverPod emptyStore) = []"
    "Namespace driverPod @ ''/'' @ Name driverPod = ''ns/driver-1''"
    by (simp_all add: startWith_def driverPod_def)
  moreover have "queue (snd (onPodAdded plainExt storeClient (PodObject 0)
      (startWith utilPod emptyStore))) = queue (startWith utilPod emptyStore)"
    using util present_utilPod not_spark_utilPod by blast
  moreover have "calls (snd (onPodAdded plainExt storeClient (PodObject 0)
      (startWith utilPod emptyStore))) =
      (if DeepCopy_error plainExt utilPod = None
       then calls (startWith utilPod emptyStore) @
         [PodsUpdate (Namespace utilPod) (removeSelf utilPod)]
       else calls (startWith utilPod emptyStore))"
    using util present_utilPod not_spark_utilPod by blast
  moreover have "DeepCopy_error plainExt utilPod = None" "Namespace utilPod = ''ns''"
    "calls (startWith utilPod emptyStore) = []" "queue (startWith utilPod emptyStore) = []"
    by (simp_all add: plainExt_def utilPod_def samplePod_def startWith_def)
  moreover have "onPodAdded plainExt storeClient (PodObject 0) (startWith samplePod emptyStore) =
     (Returned (), startWith samplePod emptyStore)"
    using plain absent_samplePod by blast
  ultimately show ?thesis
    by (simp add: removeSelf_utilPod)
qed

text \<open>
  Claim C5. In the worker, with \<open>syncSparkPod\<close> as the handler: a fetch that answers
  not-found makes \<open>syncSparkPod\<close> return no error; a fetch error, a pod without
  containers and a patch error each make it return an error. When it returns no error
  \<open>processNextItem\<close> invokes \<open>Forget\<close> and then \<open>Done\<close> on the key; when it returns an
  error, \<open>AddRateLimited\<close> and then \<open>Done\<close>. \<open>syncSparkPod\<close> always returns, and among
  the queue operations of one processed item \<open>Done\<close> on the key occurs exactly once.
\<close>

theorem processNextItem_outcomes:
  "(getNamespaceName key = (ns, n, e) \<and> Get_Pod c ns n (kube s) = (Inl NotFound, w1) \<longrightarrow>
      fst (syncSparkPod ext c key (enqueue Get s)) = Returned (Inr None)) \<and>
   (getNamespaceName key = (ns, n, e) \<and> Get_Pod c ns n (kube s) = (Inl apiErr, w1) \<and>
    apiErr \<noteq> NotFound \<longrightarrow>
      fst (syncSparkPod ext c key (enqueue Get s)) = Returned (Inl (Api apiErr))) \<and>
   (getNamespaceName key = (ns, n, e) \<and> Get_Pod c ns n (kube s) = (Inr fetched, w1) \<and>
    DeepCopy_error ext fetched = None \<and> Containers fetched = [] \<longrightarrow>
      fst (syncSparkPod ext c key (enqueue Get s)) =
        Returned (Inl (NoContainerFound (Name fetched)))) \<and>
   (getNamespaceName key = (ns, n, e) \<and> Get_Pod c ns n (kube s) = (Inr fetched, w1) \<and>
    DeepCopy_error ext fetched = None \<and> Containers fetched \<noteq> [] \<and>
    Marshal ext fetched = Inr originalData \<and>
    Marshal ext (mutated ext fetched) = Inr modifiedData \<and>
    CreateTwoWayMergePatch ext originalData modifiedData = Inr patch \<and>
    Patch_Pod c (Namespace fetched) (Name fetched) patch w1 = (Inl patchErr, w2) \<longrightarrow>
      fst (syncSparkPod ext c key (enqueue Get s)) = Returned (Inl (Api patchErr))) \<and>
   (fst (syncSparkPod ext c key (enqueue Get s)) = Returned (Inr res) \<longrightarrow>
      fst (processNextItem (syncSparkPod ext c) (key, False) s) = Returned True \<and>
      queue (snd (processNextItem (syncSparkPod ext c) (key, False) s)) =
        queue s @ [Get, Forget key, Done key]) \<and>
   (fst (syncSparkPod ext c key (enqueue Get s)) = Returned (Inl err) \<longrightarrow>
      fst (processNextItem (syncSparkPod ext c) (key, False) s) = Returned True \<and>
      queue (snd (processNextItem (syncSparkPod ext c) (key, False) s)) =
        queue s @ [Get, AddRateLimited key, Done key]) \<and>
   (\<exists>r. fst (syncSparkPod ext c key (enqueue Get s)) = Returned r) \<and>
   count_list (drop (length (queue s))
      (queue (snd (processNextItem (syncSparkPod ext c) (key, False) s)))) (Done key) = 1"
proof -
  have "getNamespaceName key = (ns, n, e) \<and> Get_Pod c ns n (kube s) = (Inl NotFound, w1) \<longrightarrow>
      fst (syncSparkPod ext c key (enqueue Get s)) = Returned (Inr None)"
    by (simp add: syncSparkPod_not_found [where s = "enqueue Get s"])
  moreover have "getNamespaceName key = (ns, n, e) \<and>
      Get_Pod c ns n (kube s) = (Inl apiErr, w1) \<and> apiErr \<noteq> NotFound \<longrightarrow>
      fst (syncSparkPod ext c key (enqueue Get s)) = Returned (Inl (Api apiErr))"
    by (simp add: syncSparkPod_fetch_error [where s = "enqueue Get s"])
  moreover have "getNamespaceName key = (ns, n, e) \<and>
      Get_Pod c ns n (kube s) = (Inr fetched, w1) \<and>
      DeepCopy_error ext fetched = None \<and> Containers fetched = [] \<longrightarrow>
      fst (syncSparkPod ext c key (enqueue Get s)) =
        Returned (Inl (NoContainerFound (Name fetched)))"
    by (simp add: syncSparkPod_no_container [where s = "enqueue Get s"])
  moreover have "getNamespaceName key = (ns, n, e) \<and>
      Get_Pod c ns n (kube s) = (Inr fetched, w1) \<and>
      DeepCopy_error ext fetched = None \<and> Containers fetched \<noteq> [] \<and>
      Marshal ext fetched = Inr originalData \<and>
      Marshal ext (mutated ext fetched) = Inr modifiedData \<and>
      CreateTwoWayMergePatch ext originalData modifiedData = Inr patch \<and>
      Patch_Pod c (Namespace fetched) (Name fetched) patch w1 = (Inl patchErr, w2) \<longrightarrow>
      fst (syncSparkPod ext c key (enqueue Get s)) = Returned (Inl (Api patchErr))"
    by (simp add: syncSparkPod_patch [where s = "enqueue Get s"])
  ultimately show ?thesis
    using processNextItem_sync_success [of ext c key s res]
      processNextItem_sync_failure [of ext c key s err]
      processNextItem_sync_done_once [of s ext c key]
      syncSparkPod_returns [of ext c key "enqueue Get s"]
    by blast
qed

theorem processNextItem_outcomes_witness:
  "queue (snd (processNextItem (syncSparkPod plainExt storeClient) (''ns/driver-1'', False)
      (startWith samplePod emptyStore))) =
     [Get, Forget ''ns/driver-1'', Done ''ns/driver-1''] \<and>
   queue (snd (processNextItem (syncSparkPod plainExt storeClient) (''ns/driver-2'', False)
      (startWith samplePod (podStore driver2Pod)))) =
     [Get, AddRateLimited ''ns/driver-2'', Done ''ns/driver-2'']"
proof -
  note gone = processNextItem_outcomes
    [where key = "''ns/driver-1''" and ns = "''ns''" and n = "''driver-1''" and e = None
       and c = storeClient and s = "startWith samplePod emptyStore" and ?w1.0 = emptyStore
       and ext = plainExt and res = None]
  note empty = processNextItem_outcomes
    [where key = "''ns/driver-2''" and ns = "''ns''" and n = "''driver-2''" and e = None
       and c = storeClient and s = "startWith samplePod (podStore driver2Pod)"
       and ?w1.0 = "podStore driver2Pod" and fetched = driver2Pod and ext = plainExt
       and err = "NoContainerFound ''driver-2''"]
  have "Get_Pod storeClient ''ns'' ''driver-1'' (kube (startWith samplePod emptyStore)) =
      (Inl NotFound, emptyStore)"
    by (simp add: startWith_fields Get_Pod_emptyStore)
  with gone getNamespaceName_driver1
  have "queue (snd (processNextItem (syncSparkPod plainExt storeClient) (''ns/driver-1'', False)
      (startWith samplePod emptyStore))) =
      queue (startWith samplePod emptyStore) @ [Get, Forget ''ns/driver-1'', Done ''ns/driver-1'']"
    by blast
  moreover
  have "Get_Pod storeClient ''ns'' ''driver-2''
      (kube (startWith samplePod (podStore driver2Pod))) = (Inr driver2Pod, podStore driver2Pod)"
    using Get_Pod_podStore [of driver2Pod] by (simp add: startWith_fields driver2Pod_fields)
  with empty getNamespaceName_driver2 DeepCopy_error_plainExt [of driver2Pod] driver2Pod_fields
  have "queue (snd (processNextItem (syncSparkPod plainExt storeClient) (''ns/driver-2'', False)
      (startWith samplePod (podStore driver2Pod)))) =
      queue (startWith samplePod (podStore driver2Pod)) @
        [Get, AddRateLimited ''ns/driver-2'', Done ''ns/driver-2'']"
    by simp
  ultimately show ?thesis
    by (simp add: startWith_fields)
qed

text \<open>
  Claim C3. The owner-attachment step is not skipped on a decoding failure: when the
  owner-reference annotation is present and \<open>Unmarshal\<close> reports an error,
  \<open>addOwnerReference\<close> logs the failure and still appends the owner reference the
  failed call left in the receiver. The pod's owner-reference list grows by one entry.
\<close>

theorem addOwnerReference_appends_after_failure:
  assumes "Annotations pod (OwnerReferenceAnnotation ext) = Some ownerReferenceStr"
    and "Unmarshal ext ownerReferenceStr = (ownerReference, Some err)"
  shows "addOwnerReference ext pod =
     (pod\<lparr>OwnerReferences := OwnerReferences pod @ [ownerReference]\<rparr>,
      [Errorf ''failed to add OwnerReference to Pod %s: %v''])"
  using assms by (simp add: addOwnerReference_def)

theorem addOwnerReference_appends_after_failure_witness:
  "OwnerReferences (samplePod\<lparr>Annotations := [''owner-reference'' \<mapsto> ''garbage'']\<rparr>) = [] \<and>
   OwnerReferences
     (fst (addOwnerReference plainExt
        (samplePod\<lparr>Annotations := [''owner-reference'' \<mapsto> ''garbage'']\<rparr>))) =
     [zeroOwnerReference] \<and>
   snd (addOwnerReference plainExt
        (samplePod\<lparr>Annotations := [''owner-reference'' \<mapsto> ''garbage'']\<rparr>)) =
     [Errorf ''failed to add OwnerReference to Pod %s: %v'']"
proof -
  have "Annotations (samplePod\<lparr>Annotations := [''owner-reference'' \<mapsto> ''garbage'']\<rparr>)
      (OwnerReferenceAnnotation plainExt) = Some ''garbage''"
    by (simp add: plainExt_def)
  moreover have "Unmarshal plainExt ''garbage'' = (zeroOwnerReference, Some ''unexpected EOF'')"
    by (simp add: plainExt_def)
  ultimately show ?thesis
    using addOwnerReference_appends_after_failure
      [of "samplePod\<lparr>Annotations := [''owner-reference'' \<mapsto> ''garbage'']\<rparr>" plainExt
          "''garbage''" zeroOwnerReference "''unexpected EOF''"]
    by (simp add: samplePod_def)
qed

text \<open>
  Claim C4. On a payload that is not a pod, \<open>onPodAdded\<close> logs the payload and
  returns, with nothing enqueued. \<open>onPodDeleted\<close> logs the payload, does not return,
  and reads the labels through the nil pointer of the failed assertion: it panics.
\<close>

theorem handlers_on_non_pod:
  "onPodAdded ext c (OtherObject d) s =
     (Returned (), s\<lparr>glog := glog s @ [Errorf ''received non-pod object: %v'']\<rparr>) \<and>
   onPodDeleted (OtherObject d) s =
     (Panicked ''nil pointer dereference'',
      s\<lparr>glog := glog s @ [Errorf ''received non-pod object: %v'']\<rparr>)"
  by (simp add: onPodAdded_def onPodDeleted_def assertPod_def logged_def)

text \<open>
  Claim C7. When the fetched pod has no container, \<open>syncSparkPod\<close> returns an error
  after the one fetch request and nothing else: no patch is sent and nothing is logged;
  when the copy succeeds the error is the validation error, the copy is left equal to
  the fetched pod, and only the two objects are added to the heap. \<open>syncSparkPod\<close>
  never panics: the address of the first container is taken only of a list that has
  one.
\<close>

theorem syncSparkPod_requires_container:
  "(getNamespaceName key = (ns, n, e) \<and> Get_Pod c ns n (kube s) = (Inr fetched, w1) \<and>
    Containers fetched = [] \<longrightarrow>
      (\<exists>err. fst (syncSparkPod ext c key s) = Returned (Inl err)) \<and>
      calls (snd (syncSparkPod ext c key s)) = calls s @ [PodsGet ns n] \<and>
      glog (snd (syncSparkPod ext c key s)) = glog s \<and>
      (DeepCopy_error ext fetched = None \<longrightarrow>
         syncSparkPod ext c key s =
           (Returned (Inl (NoContainerFound (Name fetched))),
            s\<lparr>kube := w1, calls := calls s @ [PodsGet ns n],
              heap := (heap s)(brk s := fetched, Suc (brk s) := fetched),
              brk := Suc (Suc (brk s))\<rparr>))) \<and>
   (\<forall>msg. fst (syncSparkPod ext c key s) \<noteq> Panicked msg)"
  using syncSparkPod_no_container_calls [of key ns n e c s fetched w1 ext]
    syncSparkPod_no_container [of key ns n e c s fetched w1 ext]
    syncSparkPod_no_panic [of ext c key s]
  by blast

theorem syncSparkPod_requires_container_witness:
  "syncSparkPod plainExt storeClient ''ns/driver-2'' (startWith samplePod (podStore driver2Pod)) =
     (Returned (Inl (NoContainerFound ''driver-2'')),
      \<lparr>kube = podStore driver2Pod, calls = [PodsGet ''ns'' ''driver-2''], queue = [], glog = [],
       heap = (\<lambda>_. samplePod)(1 := driver2Pod, 2 := driver2Pod), brk = 3\<rparr>)"
proof -
  have "Get_Pod storeClient ''ns'' ''driver-2''
      (kube (startWith samplePod (podStore driver2Pod))) = (Inr driver2Pod, podStore driver2Pod)"
    using Get_Pod_podStore [of driver2Pod] by (simp add: startWith_fields driver2Pod_fields)
  with getNamespaceName_driver2 DeepCopy_error_plainExt [of driver2Pod] driver2Pod_fields
    syncSparkPod_requires_container
      [of "''ns/driver-2''" "''ns''" "''driver-2''" None storeClient
          "startWith samplePod (podStore driver2Pod)" driver2Pod "podStore driver2Pod" plainExt]
  have "syncSparkPod plainExt storeClient ''ns/driver-2''
      (startWith samplePod (podStore driver2Pod)) =
     (Returned (Inl (NoContainerFound ''driver-2'')),
      (startWith samplePod (podStore driver2Pod))
        \<lparr>kube := podStore driver2Pod,
         calls := calls (startWith samplePod (podStore driver2Pod)) @ [PodsGet ''ns'' ''driver-2''],
         heap := (heap (startWith samplePod (podStore driver2Pod)))
           (brk (startWith samplePod (podStore driver2Pod)) := driver2Pod,
            Suc (brk (startWith samplePod (podStore driver2Pod))) := driver2Pod),
         brk := Suc (Suc (brk (startWith samplePod (podStore driver2Pod))))\<rparr>)"
    by simp
  then show ?thesis
    by (simp add: startWith_def numeral_2_eq_2 numeral_3_eq_3)
qed

text \<open>
  Claim C9. Neither path changes a pod object that existed before the call. In
  \<open>syncSparkPod\<close> the fetched pod, at the first new address, still holds what the
  client returned after the four mutation steps ran on the copy at the second, and the
  patch sent is the one computed from the fetched pod and the mutated copy. In
  \<open>handleNonSparkPod\<close> the marker is removed from the copy, which is the pod sent in
  the update request.
\<close>

theorem reconciliation_mutates_only_the_copy:
  "(a < brk s \<longrightarrow> heap (snd (syncSparkPod ext c key s)) a = heap s a) \<and>
   (getNamespaceName key = (ns, n, e) \<and> Get_Pod c ns n (kube s) = (Inr fetched, w1) \<and>
    DeepCopy_error ext fetched = None \<and> Containers fetched \<noteq> [] \<longrightarrow>
      heap (snd (syncSparkPod ext c key s)) (brk s) = fetched \<and>
      heap (snd (syncSparkPod ext c key s)) (Suc (brk s)) = mutated ext fetched \<and>
      (Marshal ext fetched = Inr originalData \<and>
       Marshal ext (mutated ext fetched) = Inr modifiedData \<and>
       CreateTwoWayMergePatch ext originalData modifiedData = Inr patch \<longrightarrow>
         calls (snd (syncSparkPod ext c key s)) =
           calls s @ [PodsGet ns n, PodsPatch (Namespace fetched) (Name fetched) patch])) \<and>
   (a < brk s \<longrightarrow> heap (snd (handleNonSparkPod ext c pod s)) a = heap s a) \<and>
   (DeepCopy_error ext (heap s pod) = None \<longrightarrow>
      heap (snd (handleNonSparkPod ext c pod s)) (brk s) = removeSelf (heap s pod) \<and>
      calls (snd (handleNonSparkPod ext c pod s)) =
        calls s @ [PodsUpdate (Namespace (heap s pod)) (removeSelf (heap s pod))])"
  using syncSparkPod_heap [of a s ext c key]
    syncSparkPod_mutates_heap [of key ns n e c s fetched w1 ext]
    syncSparkPod_patch_calls [of key ns n e c s fetched w1 ext originalData modifiedData patch]
    handleNonSparkPod_heap [of a s ext c pod]
    handleNonSparkPod_copy [of ext s pod c]
    calls_handleNonSparkPod [of ext c pod s]
  by simp

theorem reconciliation_mutates_only_the_copy_witness:
  "heap (snd (syncSparkPod plainExt storeClient ''ns/driver-1''
      (startWith samplePod (podStore driverPod)))) 0 = samplePod \<and>
   heap (snd (syncSparkPod plainExt storeClient ''ns/driver-1''
      (startWith samplePod (podStore driverPod)))) 1 = driverPod \<and>
   heap (snd (syncSparkPod plainExt storeClient ''ns/driver-1''
      (startWith samplePod (podStore driverPod)))) 2 = driverPod\<lparr>Initializers := None\<rparr> \<and>
   calls (snd (syncSparkPod plainExt storeClient ''ns/driver-1''
      (startWith samplePod (podStore driverPod)))) =
     [PodsGet ''ns'' ''driver-1'', PodsPatch ''ns'' ''driver-1'' ''driver-1>driver-1''] \<and>
   heap (snd (handleNonSparkPod plainExt storeClient 0 (startWith utilPod emptyStore))) 0 =
     utilPod \<and>
   heap (snd (handleNonSparkPod plainExt storeClient 0 (startWith utilPod emptyStore))) 1 =
     samplePod \<and>
   calls (snd (handleNonSparkPod plainExt storeClient 0 (startWith utilPod emptyStore))) =
     [PodsUpdate ''ns'' samplePod]"
proof -
  let ?s = "startWith samplePod (podStore driverPod)"
  let ?u = "startWith utilPod emptyStore"
  note sync = reconciliation_mutates_only_the_copy
    [where a = 0 and s = ?s and ext = plainExt
       and c = storeClient and key = "''ns/driver-1''" and ns = "''ns''" and n = "''driver-1''"
       and e = None and fetched = driverPod and ?w1.0 = "podStore driverPod"
       and originalData = "''driver-1''" and modifiedData = "''driver-1''"
       and patch = "''driver-1>driver-1''" and pod = 0]
  note inline = reconciliation_mutates_only_the_copy
    [where a = 0 and s = ?u and ext = plainExt
       and c = storeClient and pod = 0 and key = "''ns/driver-1''" and ns = "''ns''"
       and n = "''driver-1''" and e = None and fetched = driverPod
       and ?w1.0 = "podStore driverPod" and originalData = "''driver-1''"
       and modifiedData = "''driver-1''" and patch = "''driver-1>driver-1''"]
  have get: "Get_Pod storeClient ''ns'' ''driver-1'' (kube ?s) = (Inr driverPod, podStore driverPod)"
    using Get_Pod_podStore [of driverPod] by (simp add: startWith_fields driverPod_fields)
  have marshal: "Marshal plainExt driverPod = Inr ''driver-1''"
    "Marshal plainExt (mutated plainExt driverPod) = Inr ''driver-1''"
    "CreateTwoWayMergePatch plainExt ''driver-1'' ''driver-1'' = Inr ''driver-1>driver-1''"
    by (simp_all add: Marshal_plainExt mutated_driverPod driverPod_fields
          CreateTwoWayMergePatch_plainExt)
  have allocated: "0 < brk ?s" "0 < brk ?u"
    by (simp_all add: startWith_fields)
  have copy: "DeepCopy_error plainExt driverPod = None"
    "DeepCopy_error plainExt (heap ?u 0) = None"
    by (simp_all add: DeepCopy_error_plainExt)
  have s0: "heap (snd (syncSparkPod plainExt storeClient ''ns/driver-1'' ?s)) 0 = heap ?s 0"
    using sync allocated by blast
  have s1: "heap (snd (syncSparkPod plainExt storeClient ''ns/driver-1'' ?s)) (brk ?s) =
      driverPod"
    using sync get copy getNamespaceName_driver1 driverPod_fields by blast
  have s2: "heap (snd (syncSparkPod plainExt storeClient ''ns/driver-1'' ?s)) (Suc (brk ?s)) =
      mutated plainExt driverPod"
    using sync get copy getNamespaceName_driver1 driverPod_fields by blast
  have s3: "calls (snd (syncSparkPod plainExt storeClient ''ns/driver-1'' ?s)) =
      calls ?s @ [PodsGet ''ns'' ''driver-1'',
        PodsPatch (Namespace driverPod) (Name driverPod) ''driver-1>driver-1'']"
    using sync get copy marshal getNamespaceName_driver1 driverPod_fields by blast
  have u0: "heap (snd (handleNonSparkPod plainExt storeClient 0 ?u)) 0 = heap ?u 0"
    using inline allocated by blast
  have u1: "heap (snd (handleNonSparkPod plainExt storeClient 0 ?u)) (brk ?u) =
      removeSelf (heap ?u 0)"
    using inline copy by blast
  have u2: "calls (snd (handleNonSparkPod plainExt storeClient 0 ?u)) =
      calls ?u @ [PodsUpdate (Namespace (heap ?u 0)) (removeSelf (heap ?u 0))]"
    using inline copy by blast
  have ns: "Namespace utilPod = ''ns''"
    by (simp add: utilPod_def samplePod_def)
  show ?thesis
    using s0 s1 s2 s3 u0 u1 u2
    by (simp add: startWith_fields heap_startWith mutated_driverPod removeSelf_utilPod
          driverPod_fields ns numeral_2_eq_2)
qed

text \<open>
  Claim C10. \<open>syncSparkPod\<close> never returns the malformed-key error. On a key that
  does not split into two parts at \<open>/\<close>, \<open>getNamespaceName\<close> gives empty namespace
  and name with that error, and \<open>syncSparkPod\<close> behaves as on the key \<open>/\<close>: its first
  request fetches the pod of empty namespace and name. When neither the namespace nor the
  name of a pod holds a \<open>/\<close>, parsing the key of \<open>getQueueKey\<close> gives them back
  without an error.
\<close>

theorem malformed_key_error_is_discarded:
  "(\<forall>k. fst (syncSparkPod ext c key s) \<noteq> Returned (Inl (MalformedQueueKey k))) \<and>
   (length (Split key (CHR ''/'')) \<noteq> 2 \<longrightarrow>
      getNamespaceName key = ('''', '''', Some (MalformedQueueKey key)) \<and>
      syncSparkPod ext c key s = syncSparkPod ext c ''/'' s \<and>
      take (Suc (length (calls s))) (calls (snd (syncSparkPod ext c key s))) =
        calls s @ [PodsGet '''' '''']) \<and>
   (CHR ''/'' \<notin> set (Namespace pod) \<and> CHR ''/'' \<notin> set (Name pod) \<longrightarrow>
      getNamespaceName (getQueueKey pod) = (Namespace pod, Name pod, None))"
proof -
  have "length (Split key (CHR ''/'')) \<noteq> 2 \<longrightarrow>
      syncSparkPod ext c key s = syncSparkPod ext c ''/'' s"
    using syncSparkPod_key [OF getNamespaceName_malformed getNamespaceName_slash, of key ext c s]
    by simp
  moreover have "length (Split key (CHR ''/'')) \<noteq> 2 \<longrightarrow>
      take (Suc (length (calls s))) (calls (snd (syncSparkPod ext c key s))) =
        calls s @ [PodsGet '''' '''']"
    using syncSparkPod_first_call [of key "''''" "''''" "Some (MalformedQueueKey key)" s ext c]
    by (simp add: getNamespaceName_malformed)
  ultimately show ?thesis
    using syncSparkPod_not_malformed [of ext c key s] getNamespaceName_malformed [of key]
      getNamespaceName_getQueueKey [of pod]
    by blast
qed

theorem malformed_key_error_is_discarded_witness:
  "getNamespaceName ''driver-1'' = ('''', '''', Some (MalformedQueueKey ''driver-1'')) \<and>
   syncSparkPod plainExt storeClient ''driver-1'' (startWith samplePod emptyStore) =
     syncSparkPod plainExt storeClient ''/'' (startWith samplePod emptyStore) \<and>
   take 1 (calls (snd (syncSparkPod plainExt storeClient ''driver-1''
     (startWith samplePod emptyStore)))) = [PodsGet '''' ''''] \<and>
   getNamespaceName (getQueueKey driverPod) = (''ns'', ''driver-1'', None)"
proof -
  let ?s = "startWith samplePod emptyStore"
  note main = malformed_key_error_is_discarded
      [of plainExt storeClient "''driver-1''" ?s driverPod]
  have malformed: "length (Split ''driver-1'' (CHR ''/'')) \<noteq> 2"
    by simp
  have clean: "CHR ''/'' \<notin> set (Namespace driverPod) \<and> CHR ''/'' \<notin> set (Name driverPod)"
    by (simp add: driverPod_def)
  have a: "getNamespaceName ''driver-1'' = ('''', '''', Some (MalformedQueueKey ''driver-1''))"
    using main malformed by blast
  have b: "syncSparkPod plainExt storeClient ''driver-1'' ?s =
      syncSparkPod plainExt storeClient ''/'' ?s"
    using main malformed by blast
  have "take (Suc (length (calls ?s)))
      (calls (snd (syncSparkPod plainExt storeClient ''driver-1'' ?s))) =
      calls ?s @ [PodsGet '''' '''']"
    using main malformed by blast
  then have c: "take 1 (calls (snd (syncSparkPod plainExt storeClient ''driver-1'' ?s))) =
      [PodsGet '''' '''']"
    by (simp add: startWith_fields)
  have "getNamespaceName (getQueueKey driverPod) = (Namespace driverPod, Name driverPod, None)"
    using main clean by blast
  then have d: "getNamespaceName (getQueueKey driverPod) = (''ns'', ''driver-1'', None)"
    by (simp add: driverPod_fields)
  from a b c d show ?thesis by blast
qed

text \<open>
  Claim C8. \<open>addInitializationConfig\<close> fetches the registration record. When it is
  absent, it creates the record \<open>sparkPodInitializerConfig\<close>, whose only entry bears
  this initializer's name. When it is present with such an entry, nothing follows the
  fetch but a warning. When it is present without one, the record is updated with one
  such entry appended, which is then the only entry of that name. When the server
  creates the record and then hands it out, a second call finds the entry and sends
  only its fetch: the record holds exactly one entry of that name.
\<close>

theorem addInitializationConfig_converges:
  "(Get_Config c initializerConfigName (kube s) = (Inl NotFound, w1) \<and>
    Create_Config c sparkPodInitializerConfig w1 = (r, w2) \<longrightarrow>
      addInitializationConfig c s =
        (case r of Inl err \<Rightarrow> Some (FailedToCreate err) | Inr _ \<Rightarrow> None,
         s\<lparr>kube := w2,
           calls := calls s @
             [ConfigGet initializerConfigName, ConfigCreate sparkPodInitializerConfig]\<rparr>)) \<and>
   Config_Name sparkPodInitializerConfig = ''spark-pod-initializer-config'' \<and>
   map Initializer_Name (Config_Initializers sparkPodInitializerConfig) =
     [''pod-initializer.spark-operator.k8s.io''] \<and>
   (Get_Config c initializerConfigName (kube s) = (Inr existingConfig, w1) \<and>
    (\<exists>i \<in> set (Config_Initializers existingConfig). Initializer_Name i = initializerName) \<longrightarrow>
      addInitializationConfig c s =
        (None,
         s\<lparr>kube := w1, calls := calls s @ [ConfigGet initializerConfigName],
           glog := glog s @
             [Warning ''InitializerConfiguration %s with Initializer %s already exists'']\<rparr>)) \<and>
   (Get_Config c initializerConfigName (kube s) = (Inr existingConfig, w1) \<and>
    \<not> (\<exists>i \<in> set (Config_Initializers existingConfig). Initializer_Name i = initializerName) \<and>
    Update_Config c
      (existingConfig\<lparr>Config_Initializers :=
         Config_Initializers existingConfig @ [sparkPodInitializer]\<rparr>) w1 = (r, w2) \<longrightarrow>
      addInitializationConfig c s =
        (case r of Inl err \<Rightarrow> Some (FailedToUpdate err) | Inr _ \<Rightarrow> None,
         s\<lparr>kube := w2,
           calls := calls s @
             [ConfigGet initializerConfigName,
              ConfigUpdate (existingConfig\<lparr>Config_Initializers :=
                 Config_Initializers existingConfig @ [sparkPodInitializer]\<rparr>)],
           glog := glog s @
             [Warning ''Found InitializerConfiguration %s without Initializer %s'']\<rparr>) \<and>
      filter (\<lambda>i. Initializer_Name i = initializerName)
        (Config_Initializers existingConfig @ [sparkPodInitializer]) = [sparkPodInitializer]) \<and>
   (Get_Config c initializerConfigName (kube s) = (Inl NotFound, w1) \<and>
    Create_Config c sparkPodInitializerConfig w1 = (Inr created, w2) \<and>
    Get_Config c initializerConfigName w2 = (Inr sparkPodInitializerConfig, w3) \<longrightarrow>
      fst (addInitializationConfig c s) = None \<and>
      addInitializationConfig c (snd (addInitializationConfig c s)) =
        (None,
         s\<lparr>kube := w3,
           calls := calls s @
             [ConfigGet initializerConfigName, ConfigCreate sparkPodInitializerConfig,
              ConfigGet initializerConfigName],
           glog := glog s @
             [Warning ''InitializerConfiguration %s with Initializer %s already exists'']\<rparr>) \<and>
      length (filter (\<lambda>i. Initializer_Name i = initializerName)
        (Config_Initializers sparkPodInitializerConfig)) = 1)"
proof -
  have "Config_Name sparkPodInitializerConfig = ''spark-pod-initializer-config''"
    "map Initializer_Name (Config_Initializers sparkPodInitializerConfig) =
       [''pod-initializer.spark-operator.k8s.io'']"
    by (simp_all add: sparkPodInitializerConfig_def sparkPodInitializer_def
          initializerConfigName_def initializerName_def)
  moreover have "length (filter (\<lambda>i. Initializer_Name i = initializerName)
        (Config_Initializers sparkPodInitializerConfig)) = 1"
    by (simp add: own_entries_created)
  ultimately show ?thesis
    using addInitializationConfig_absent [of c s w1 r w2]
      addInitializationConfig_present [of c s existingConfig w1]
      addInitializationConfig_append [of c s existingConfig w1 r w2]
      own_entries_appended [of "Config_Initializers existingConfig"]
      addInitializationConfig_twice [of c s w1 created w2 w3]
    by blast
qed

theorem addInitializationConfig_converges_witness:
  "fst (addInitializationConfig storeClient (startWith samplePod emptyStore)) = None \<and>
   addInitializationConfig storeClient
       (snd (addInitializationConfig storeClient (startWith samplePod emptyStore))) =
     (None,
      (startWith samplePod emptyStore)
        \<lparr>kube := configStore sparkPodInitializerConfig,
         calls := [ConfigGet initializerConfigName, ConfigCreate sparkPodInitializerConfig,
                   ConfigGet initializerConfigName],
         glog := [Warning ''InitializerConfiguration %s with Initializer %s already exists'']\<rparr>) \<and>
   map Initializer_Name (Config_Initializers sparkPodInitializerConfig) =
     [''pod-initializer.spark-operator.k8s.io''] \<and>
   kube (snd (addInitializationConfig storeClient (startWith samplePod (configStore otherConfig)))) =
     configStore (otherConfig\<lparr>Config_Initializers :=
        Config_Initializers otherConfig @ [sparkPodInitializer]\<rparr>) \<and>
   map Initializer_Name (Config_Initializers otherConfig @ [sparkPodInitializer]) =
     [''other.k8s.io'', ''pod-initializer.spark-operator.k8s.io'']"
proof -
  let ?s = "startWith samplePod emptyStore"
  let ?t = "startWith samplePod (configStore otherConfig)"
  let ?updated = "otherConfig\<lparr>Config_Initializers :=
        Config_Initializers otherConfig @ [sparkPodInitializer]\<rparr>"
  note fresh = addInitializationConfig_converges
    [where c = storeClient and s = ?s and ?w1.0 = emptyStore
       and r = "Inr sparkPodInitializerConfig" and created = sparkPodInitializerConfig
       and ?w2.0 = "configStore sparkPodInitializerConfig"
       and ?w3.0 = "configStore sparkPodInitializerConfig" and existingConfig = otherConfig]
  note other = addInitializationConfig_converges
    [where c = storeClient and s = ?t and ?w1.0 = "configStore otherConfig"
       and r = "Inr ?updated" and created = sparkPodInitializerConfig
       and ?w2.0 = "configStore ?updated"
       and ?w3.0 = "configStore sparkPodInitializerConfig" and existingConfig = otherConfig]
  have get1: "Get_Config storeClient initializerConfigName (kube ?s) = (Inl NotFound, emptyStore)"
    by (simp add: startWith_fields Get_Config_emptyStore)
  have create: "Create_Config storeClient sparkPodInitializerConfig emptyStore =
      (Inr sparkPodInitializerConfig, configStore sparkPodInitializerConfig)"
    by (rule Create_Config_emptyStore)
  have get2: "Get_Config storeClient initializerConfigName
      (configStore sparkPodInitializerConfig) =
      (Inr sparkPodInitializerConfig, configStore sparkPodInitializerConfig)"
    using Get_Config_configStore [of sparkPodInitializerConfig]
    by (simp add: Config_Name_fields)
  have a: "fst (addInitializationConfig storeClient ?s) = None"
    using fresh get1 create get2 by blast
  have "addInitializationConfig storeClient (snd (addInitializationConfig storeClient ?s)) =
     (None,
      ?s\<lparr>kube := configStore sparkPodInitializerConfig,
         calls := calls ?s @
           [ConfigGet initializerConfigName, ConfigCreate sparkPodInitializerConfig,
            ConfigGet initializerConfigName],
         glog := glog ?s @
           [Warning ''InitializerConfiguration %s with Initializer %s already exists'']\<rparr>)"
    using fresh get1 create get2 by blast
  then have b: "addInitializationConfig storeClient
       (snd (addInitializationConfig storeClient ?s)) =
     (None,
      ?s\<lparr>kube := configStore sparkPodInitializerConfig,
         calls := [ConfigGet initializerConfigName, ConfigCreate sparkPodInitializerConfig,
                   ConfigGet initializerConfigName],
         glog := [Warning ''InitializerConfiguration %s with Initializer %s already exists'']\<rparr>)"
    by (simp add: startWith_fields)
  have c: "map Initializer_Name (Config_Initializers sparkPodInitializerConfig) =
     [''pod-initializer.spark-operator.k8s.io'']"
    using fresh by blast
  have get3: "Get_Config storeClient initializerConfigName (kube ?t) =
      (Inr otherConfig, configStore otherConfig)"
    using Get_Config_configStore [of otherConfig]
    by (simp add: startWith_fields Config_Name_fields)
  have lacks: "\<not> (\<exists>i \<in> set (Config_Initializers otherConfig).
      Initializer_Name i = initializerName)"
    by (simp add: otherConfig_def initializerName_def)
  have update: "Update_Config storeClient ?updated (configStore otherConfig) =
      (Inr ?updated, configStore ?updated)"
    by (rule Update_Config_configStore) simp
  have "addInitializationConfig storeClient ?t =
     (case (Inr ?updated :: api_error + initializerConfiguration) of
        Inl err \<Rightarrow> Some (FailedToUpdate err) | Inr _ \<Rightarrow> None,
      ?t\<lparr>kube := configStore ?updated,
         calls := calls ?t @ [ConfigGet initializerConfigName, ConfigUpdate ?updated],
         glog := glog ?t @
           [Warning ''Found InitializerConfiguration %s without Initializer %s'']\<rparr>)"
    using other get3 lacks update by blast
  then have d: "kube (snd (addInitializationConfig storeClient ?t)) = configStore ?updated"
    by simp
  have e: "map Initializer_Name (Config_Initializers otherConfig @ [sparkPodInitializer]) =
     [''other.k8s.io'', ''pod-initializer.spark-operator.k8s.io'']"
    by (simp add: otherConfig_def sparkPodInitializer_def initializerName_def)
  from a b c d e show ?thesis by blast
qed

end
